theory Spec2Isabelle
  imports Complex_Main
begin

section \<open>Numbers, errors and dictionaries\<close>

text \<open>
  The scoring code of \<^verbatim>\<open>app7.py\<close> computes with Python floats. They are modelled as
  exact reals: every formula below is the source's expression read over \<open>real\<close>, with the
  source's operator order. \<^verbatim>\<open>int(x)\<close> on a float truncates towards zero.
\<close>

definition py_int :: "real \<Rightarrow> int" where
  "py_int x = (if 0 \<le> x then \<lfloor>x\<rfloor> else \<lceil>x\<rceil>)"

text \<open>A subscript \<^verbatim>\<open>d['k']\<close> on a dictionary without the key raises \<^verbatim>\<open>KeyError('k')\<close>.\<close>

datatype error = KeyError string

text \<open>\<^verbatim>\<open>d.get(k, default)\<close>.\<close>

definition dict_get :: "('k \<rightharpoonup> 'v) \<Rightarrow> 'k \<Rightarrow> 'v \<Rightarrow> 'v" where
  "dict_get d k dflt = (case d k of None \<Rightarrow> dflt | Some v \<Rightarrow> v)"

text \<open>
  The slice \<^verbatim>\<open>xs[:n]\<close>: the first \<open>n\<close> elements, and for a negative \<open>n\<close> all but
  the last \<open>-n\<close>.
\<close>

definition py_slice_to :: "'a list \<Rightarrow> int \<Rightarrow> 'a list" where
  "py_slice_to xs n = (if 0 \<le> n then take (nat n) xs else take (length xs - nat (- n)) xs)"

text \<open>\<^verbatim>\<open>str.lower()\<close>, on the ASCII letters.\<close>

definition char_lower :: "char \<Rightarrow> char" where
  "char_lower c =
     (case map_of (zip ''ABCDEFGHIJKLMNOPQRSTUVWXYZ'' ''abcdefghijklmnopqrstuvwxyz'') c of
        None \<Rightarrow> c
      | Some l \<Rightarrow> l)"

definition lower :: "string \<Rightarrow> string" where
  "lower s = map char_lower s"

section \<open>The upstream payload\<close>

text \<open>
  The weather provider's JSON answer, with the sections and fields the scoring code reads.
  A key that may be missing is an \<open>option\<close>; \<open>other_keys\<close> holds the names of the
  top-level keys that the code never reads, so that the emptiness test
  \<^verbatim>\<open>not air_data\<close> is the source's. An \<^verbatim>\<open>air_quality\<close> object maps pollutant names
  to concentrations.
\<close>

type_synonym air_quality = "string \<rightharpoonup> real"

record location_info =
  name :: string
  region :: string
  lat :: real
  lon :: real

record current_section =
  cur_air_quality :: "air_quality option"

record hour =
  temp_c :: "real option"
  humidity :: "real option"
  wind_kph :: "real option"
  hour_air_quality :: "air_quality option"

record day =
  date :: "string option"
  hours :: "hour list option"

record forecast_section =
  forecastday :: "day list option"

record payload =
  location :: "location_info option"
  current :: "current_section option"
  forecast :: "forecast_section option"
  other_keys :: "string list"

text \<open>
  \<^verbatim>\<open>not air_data\<close>: the fetch returned \<^verbatim>\<open>None\<close> (a failed request or a missing API key)
  or an empty dictionary.
\<close>

definition not_data :: "payload option \<Rightarrow> bool" where
  "not_data d =
     (case d of
        None \<Rightarrow> True
      | Some p \<Rightarrow> location p = None \<and> current p = None \<and> forecast p = None \<and> other_keys p = [])"

text \<open>
  \<^verbatim>\<open>PollutionAnalyzer.get_air_quality_data\<close> is a network call; the scoring functions
  use only what it returns, so the analyzer is a function from the queried location to the
  payload it answers with.
\<close>

type_synonym analyzer = "string \<Rightarrow> payload option"

text \<open>\<^verbatim>\<open>air_data['current'].get('air_quality', {})\<close>.\<close>

definition current_air_quality :: "current_section \<Rightarrow> air_quality" where
  "current_air_quality cur = (case cur_air_quality cur of None \<Rightarrow> Map.empty | Some aq \<Rightarrow> aq)"

section \<open>PollutionAnalyzer.process\_forecast\_data\<close>

definition pollutants :: "string list" where
  "pollutants = [''pm2_5'', ''pm10'', ''o3'', ''no2'', ''so2'', ''co'']"

text \<open>One row of the returned data frame: the date and the six daily averages.\<close>

record daily_avg =
  da_date :: string
  da_values :: "(string \<times> real) list"

text \<open>
  The comprehension
  \<^verbatim>\<open>[hour['air_quality'].get(p, 0) for hour in ... if hour['air_quality'].get(p)]\<close>:
  an hour is kept when the pollutant is present with a truthy (non-zero) value.
\<close>

fun hour_values :: "string \<Rightarrow> hour list \<Rightarrow> error + real list" where
  "hour_values pollutant [] = Inr []"
| "hour_values pollutant (h # hs) =
     (case hour_air_quality h of
        None \<Rightarrow> Inl (KeyError ''air_quality'')
      | Some aq \<Rightarrow>
          (case hour_values pollutant hs of
             Inl e \<Rightarrow> Inl e
           | Inr vs \<Rightarrow>
               (if aq pollutant \<noteq> None \<and> aq pollutant \<noteq> Some 0
                then Inr (dict_get aq pollutant 0 # vs) else Inr vs)))"

text \<open>\<^verbatim>\<open>np.mean(values) if values else 0\<close>.\<close>

definition mean_or_zero :: "real list \<Rightarrow> real" where
  "mean_or_zero vs = (if vs \<noteq> [] then sum_list vs / real (length vs) else 0)"

fun pollutant_loop :: "string list \<Rightarrow> hour list \<Rightarrow> error + (string \<times> real) list" where
  "pollutant_loop [] hs = Inr []"
| "pollutant_loop (pollutant # ps) hs =
     (case hour_values pollutant hs of
        Inl e \<Rightarrow> Inl e
      | Inr vs \<Rightarrow>
          (case pollutant_loop ps hs of
             Inl e \<Rightarrow> Inl e
           | Inr rest \<Rightarrow> Inr ((pollutant, mean_or_zero vs) # rest)))"

text \<open>\<^verbatim>\<open>day.get('hour', [])\<close>.\<close>

definition day_hours :: "day \<Rightarrow> hour list" where
  "day_hours d = (case hours d of None \<Rightarrow> [] | Some hs \<Rightarrow> hs)"

fun day_loop :: "day list \<Rightarrow> error + daily_avg list" where
  "day_loop [] = Inr []"
| "day_loop (d # ds) =
     (case date d of
        None \<Rightarrow> Inl (KeyError ''date'')
      | Some dt \<Rightarrow>
          (case pollutant_loop pollutants (day_hours d) of
             Inl e \<Rightarrow> Inl e
           | Inr vals \<Rightarrow>
               (case day_loop ds of
                  Inl e \<Rightarrow> Inl e
                | Inr rows \<Rightarrow> Inr (\<lparr>da_date = dt, da_values = vals\<rparr> # rows))))"

definition process_forecast_data :: "payload option \<Rightarrow> int \<Rightarrow> error + daily_avg list option" where
  "process_forecast_data forecast_data days =
     (case forecast_data of
        None \<Rightarrow> Inr None
      | Some p \<Rightarrow>
          (if not_data (Some p) then Inr None
           else case forecast p of
             None \<Rightarrow> Inr None
           | Some f \<Rightarrow>
               (case forecastday f of
                  None \<Rightarrow> Inl (KeyError ''forecastday'')
                | Some ds \<Rightarrow>
                    (case day_loop (py_slice_to ds days) of
                       Inl e \<Rightarrow> Inl e
                     | Inr rows \<Rightarrow> Inr (Some rows)))))"

section \<open>The AQI converter and the PM2.5 estimator\<close>

text \<open>\<^verbatim>\<open>SmartCitiesModule.predict_pm25(weather_data)\<close>, on one hourly object.\<close>

definition predict_pm25 :: "hour \<Rightarrow> error + real" where
  "predict_pm25 weather_data =
     (case temp_c weather_data of
        None \<Rightarrow> Inl (KeyError ''temp_c'')
      | Some t \<Rightarrow>
          (case humidity weather_data of
             None \<Rightarrow> Inl (KeyError ''humidity'')
           | Some h \<Rightarrow>
               (case wind_kph weather_data of
                  None \<Rightarrow> Inl (KeyError ''wind_kph'')
                | Some w \<Rightarrow>
                    (let base_pm25 = 35;
                         temp_factor = max 0 ((t - 25) / 10) * 5;
                         humidity_factor = (h - 50) / 50 * 10;
                         wind_factor = max 0 ((10 - w) / 10) * 15;
                         predicted_pm25 = base_pm25 + temp_factor + humidity_factor + wind_factor
                     in Inr (max 5 (min predicted_pm25 200))))))"

text \<open>The three copies of \<^verbatim>\<open>calculate_aqi\<close>, each from its own class.\<close>

definition SmartCitiesModule_calculate_aqi :: "real \<Rightarrow> int" where
  "SmartCitiesModule_calculate_aqi pm25 =
     (if pm25 \<le> 12 then py_int ((50 / 12) * pm25)
      else if pm25 \<le> 35.4 then py_int (50 + ((100 - 50) / (35.4 - 12.1)) * (pm25 - 12.1))
      else if pm25 \<le> 55.4 then py_int (100 + ((150 - 100) / (55.4 - 35.5)) * (pm25 - 35.5))
      else if pm25 \<le> 150.4 then py_int (150 + ((200 - 150) / (150.4 - 55.5)) * (pm25 - 55.5))
      else min 300 (py_int (200 + ((300 - 200) / (250.4 - 150.5)) * (pm25 - 150.5))))"

definition TravelEcoTourismModule_calculate_aqi :: "real \<Rightarrow> int" where
  "TravelEcoTourismModule_calculate_aqi pm25 =
     (if pm25 \<le> 12 then py_int ((50 / 12) * pm25)
      else if pm25 \<le> 35.4 then py_int (50 + ((100 - 50) / (35.4 - 12.1)) * (pm25 - 12.1))
      else if pm25 \<le> 55.4 then py_int (100 + ((150 - 100) / (55.4 - 35.5)) * (pm25 - 35.5))
      else if pm25 \<le> 150.4 then py_int (150 + ((200 - 150) / (150.4 - 55.5)) * (pm25 - 55.5))
      else min 300 (py_int (200 + ((300 - 200) / (250.4 - 150.5)) * (pm25 - 150.5))))"

definition RealEstateUrbanPlanningModule_calculate_aqi :: "real \<Rightarrow> int" where
  "RealEstateUrbanPlanningModule_calculate_aqi pm25 =
     (if pm25 \<le> 12 then py_int ((50 / 12) * pm25)
      else if pm25 \<le> 35.4 then py_int (50 + ((100 - 50) / (35.4 - 12.1)) * (pm25 - 12.1))
      else if pm25 \<le> 55.4 then py_int (100 + ((150 - 100) / (55.4 - 35.5)) * (pm25 - 35.5))
      else if pm25 \<le> 150.4 then py_int (150 + ((200 - 150) / (150.4 - 55.5)) * (pm25 - 55.5))
      else min 300 (py_int (200 + ((300 - 200) / (250.4 - 150.5)) * (pm25 - 150.5))))"

section \<open>AgricultureModule\<close>

text \<open>
  \<^verbatim>\<open>self.crop_sensitivity\<close>: a dictionary of dictionaries, kept as association lists in
  the source's insertion order, since the scoring loop walks \<^verbatim>\<open>sensitivity.items()\<close>.
\<close>

type_synonym profile = "(string \<times> real) list"

definition crop_sensitivity :: "(string \<times> profile) list" where
  "crop_sensitivity =
     [(''wheat'', [(''o3'', 0.12), (''so2'', 0.08), (''no2'', 0.05), (''pm25'', 0.10)]),
      (''rice'', [(''o3'', 0.05), (''so2'', 0.03), (''no2'', 0.02), (''pm25'', 0.04)]),
      (''corn'', [(''o3'', 0.15), (''so2'', 0.10), (''no2'', 0.07), (''pm25'', 0.12)]),
      (''soybean'', [(''o3'', 0.18), (''so2'', 0.12), (''no2'', 0.08), (''pm25'', 0.14)]),
      (''cotton'', [(''o3'', 0.10), (''so2'', 0.06), (''no2'', 0.04), (''pm25'', 0.08)])]"

definition get_risk_level :: "real \<Rightarrow> string" where
  "get_risk_level impact =
     (if impact < 2 then ''Low''
      else if impact < 5 then ''Moderate''
      else if impact < 10 then ''High''
      else ''Critical'')"

text \<open>An entry of \<^verbatim>\<open>pollutant_impacts\<close> (keys \<^verbatim>\<open>value, impact_percent, risk_level\<close>).\<close>

record pollutant_impact =
  pi_value :: real
  impact_percent :: real
  pi_risk_level :: string

text \<open>
  The returned dictionary (keys \<^verbatim>\<open>total_yield_loss, pollutant_impacts,
  air_quality_data, location_data\<close>).
\<close>

record crop_impact =
  total_yield_loss :: real
  pollutant_impacts :: "(string \<times> pollutant_impact) list"
  ci_air_quality_data :: air_quality
  ci_location_data :: location_info

text \<open>
  The branch of the loop body that reads the concentration and clips its ratio; \<open>None\<close> is
  the \<^verbatim>\<open>continue\<close> of the final \<^verbatim>\<open>else\<close>.
\<close>

definition crop_normalized :: "air_quality \<Rightarrow> string \<Rightarrow> (real \<times> real) option" where
  "crop_normalized air_quality pollutant =
     (if pollutant = ''pm25'' then
        (let v = dict_get air_quality ''pm2_5'' 0 in Some (v, min (v / 15) 3.0))
      else if pollutant = ''o3'' then
        (let v = dict_get air_quality ''o3'' 0 in Some (v, min (v / 100) 3.0))
      else if pollutant = ''so2'' then
        (let v = dict_get air_quality ''so2'' 0 in Some (v, min (v / 20) 3.0))
      else if pollutant = ''no2'' then
        (let v = dict_get air_quality ''no2'' 0 in Some (v, min (v / 40) 3.0))
      else None)"

text \<open>
  The loop \<^verbatim>\<open>for pollutant, coefficient in sensitivity.items()\<close>, threading
  \<^verbatim>\<open>yield_loss\<close> and \<^verbatim>\<open>pollutant_impacts\<close>.
\<close>

fun crop_loop ::
  "air_quality \<Rightarrow> profile \<Rightarrow> real \<times> (string \<times> pollutant_impact) list
     \<Rightarrow> real \<times> (string \<times> pollutant_impact) list" where
  "crop_loop air_quality [] st = st"
| "crop_loop air_quality ((pollutant, coefficient) # rest) (yield_loss, impacts) =
     (case crop_normalized air_quality pollutant of
        None \<Rightarrow> crop_loop air_quality rest (yield_loss, impacts)
      | Some (v, normalized) \<Rightarrow>
          (let impact = coefficient * normalized * 100
           in crop_loop air_quality rest
                (yield_loss + impact,
                 impacts @ [(pollutant,
                   \<lparr>pi_value = v, impact_percent = impact,
                    pi_risk_level = get_risk_level impact\<rparr>)])))"

text \<open>\<^verbatim>\<open>self.crop_sensitivity.get(key, self.crop_sensitivity['wheat'])\<close>.\<close>

definition crop_profile :: "string \<Rightarrow> profile" where
  "crop_profile key =
     (case map_of crop_sensitivity key of
        None \<Rightarrow> the (map_of crop_sensitivity ''wheat'')
      | Some s \<Rightarrow> s)"

definition predict_crop_impact :: "analyzer \<Rightarrow> string \<Rightarrow> string \<Rightarrow> error + crop_impact option" where
  "predict_crop_impact analyzer loc crop_type =
     (let air_data = analyzer loc in
      case air_data of
        None \<Rightarrow> Inr None
      | Some p \<Rightarrow>
          (if not_data air_data then Inr None
           else case current p of
             None \<Rightarrow> Inr None
           | Some cur \<Rightarrow>
               (let air_quality = current_air_quality cur;
                    sensitivity = crop_profile (lower crop_type);
                    (yield_loss, impacts) = crop_loop air_quality sensitivity (0, [])
                in case location p of
                     None \<Rightarrow> Inl (KeyError ''location'')
                   | Some l \<Rightarrow>
                       Inr (Some \<lparr>total_yield_loss = min yield_loss 50,
                                  pollutant_impacts = impacts,
                                  ci_air_quality_data = air_quality,
                                  ci_location_data = l\<rparr>))))"

section \<open>HealthcareModule\<close>

definition risk_profiles :: "(string \<times> profile) list" where
  "risk_profiles =
     [(''child'', [(''pm25'', 1.5), (''o3'', 1.3), (''no2'', 1.2), (''so2'', 1.4)]),
      (''adult'', [(''pm25'', 1.0), (''o3'', 1.0), (''no2'', 1.0), (''so2'', 1.0)]),
      (''elderly'', [(''pm25'', 1.8), (''o3'', 1.6), (''no2'', 1.4), (''so2'', 1.7)]),
      (''asthma'', [(''pm25'', 2.2), (''o3'', 2.0), (''no2'', 1.8), (''so2'', 2.1)]),
      (''heart_disease'', [(''pm25'', 2.0), (''o3'', 1.7), (''no2'', 1.5), (''so2'', 1.8)])]"

definition get_health_risk_level :: "real \<Rightarrow> string" where
  "get_health_risk_level score =
     (if score < 2 then ''Low''
      else if score < 4 then ''Moderate''
      else if score < 6 then ''High''
      else if score < 8 then ''Very High''
      else ''Hazardous'')"

text \<open>
  \<^verbatim>\<open>conditions\<close> is \<^verbatim>\<open>None\<close> or a list of names; \<^verbatim>\<open>conditions and c in conditions\<close>
  holds for a non-empty list that has \<open>c\<close>.
\<close>

definition has_condition :: "string list option \<Rightarrow> string \<Rightarrow> bool" where
  "has_condition conditions c =
     (case conditions of None \<Rightarrow> False | Some cs \<Rightarrow> cs \<noteq> [] \<and> c \<in> set cs)"

definition generate_health_recommendations ::
  "real \<Rightarrow> string \<Rightarrow> string list option \<Rightarrow> string list" where
  "generate_health_recommendations risk_score age_group conditions =
     (if risk_score < 2 then
        [''Air quality is good. Normal outdoor activities are safe.'',
         ''Continue regular exercise routines.'']
      else if risk_score < 4 then
        [''Moderate air pollution. Sensitive individuals should limit outdoor activities.'',
         ''Consider indoor exercise on high pollution days.'']
      else if risk_score < 6 then
        [''Unhealthy air quality. Limit outdoor activities, especially vigorous exercise.'',
         ''Use air purifiers indoors.'', ''Wear N95 masks when outdoors.'']
      else
        [''Hazardous air quality. Avoid outdoor activities.'',
         ''Stay indoors with air purification.'',
         ''Seek medical attention if experiencing respiratory issues.''])
     @ (if age_group = ''child'' then
          [''Keep children indoors during high pollution periods.'']
        else if age_group = ''elderly'' then
          [''Elderly individuals should be extra cautious and monitor symptoms.'']
        else [])
     @ (if has_condition conditions ''asthma'' then
          [''Keep rescue inhalers readily available.''] else [])
     @ (if has_condition conditions ''heart_disease'' then
          [''Monitor heart rate and blood pressure regularly.''] else [])"

text \<open>An entry of \<^verbatim>\<open>pollutant_risks\<close> (keys \<^verbatim>\<open>value, risk_score, risk_level\<close>).\<close>

record pollutant_risk =
  pr_value :: real
  risk_score :: real
  pr_risk_level :: string

record health_risk =
  overall_risk_score :: real
  overall_risk_level :: string
  pollutant_risks :: "(string \<times> pollutant_risk) list"
  recommendations :: "string list"
  hr_air_quality_data :: air_quality

text \<open>The conditional expression that selects \<^verbatim>\<open>profile\<close>.\<close>

definition select_profile :: "string \<Rightarrow> string list option \<Rightarrow> profile" where
  "select_profile age_group conditions =
     (if has_condition conditions ''asthma'' then the (map_of risk_profiles ''asthma'')
      else if has_condition conditions ''heart_disease'' then
        the (map_of risk_profiles ''heart_disease'')
      else (case map_of risk_profiles age_group of
              None \<Rightarrow> the (map_of risk_profiles ''adult'')
            | Some pr \<Rightarrow> pr))"

text \<open>
  The loop \<^verbatim>\<open>for pollutant, value in pollutants.items()\<close>, threading
  \<^verbatim>\<open>total_risk_score\<close> and \<^verbatim>\<open>health_risks\<close>.
\<close>

fun risk_loop ::
  "profile \<Rightarrow> (string \<times> real) list \<Rightarrow> real \<times> (string \<times> pollutant_risk) list
     \<Rightarrow> real \<times> (string \<times> pollutant_risk) list" where
  "risk_loop prof [] st = st"
| "risk_loop prof ((pollutant, v) # rest) (total_risk_score, health_risks) =
     (case map_of prof pollutant of
        None \<Rightarrow> risk_loop prof rest (total_risk_score, health_risks)
      | Some weight \<Rightarrow>
          (let normalized =
                 (if pollutant = ''pm25'' then v / 15
                  else if pollutant = ''o3'' then v / 100
                  else if pollutant = ''no2'' then v / 40
                  else v / 20);
               score = min (normalized * weight * 10) 10
           in risk_loop prof rest
                (total_risk_score + score,
                 health_risks @ [(pollutant,
                   \<lparr>pr_value = v, risk_score = score,
                    pr_risk_level = get_health_risk_level score\<rparr>)])))"

definition assess_health_risk ::
  "analyzer \<Rightarrow> string \<Rightarrow> string \<Rightarrow> string list option \<Rightarrow> error + health_risk option" where
  "assess_health_risk analyzer loc age_group conditions =
     (let air_data = analyzer loc in
      case air_data of
        None \<Rightarrow> Inr None
      | Some p \<Rightarrow>
          (if not_data air_data then Inr None
           else case current p of
             None \<Rightarrow> Inr None
           | Some cur \<Rightarrow>
               (let air_quality = current_air_quality cur;
                    prof = select_profile age_group conditions;
                    pollutant_values =
                      [(''pm25'', dict_get air_quality ''pm2_5'' 0),
                       (''o3'', dict_get air_quality ''o3'' 0),
                       (''no2'', dict_get air_quality ''no2'' 0),
                       (''so2'', dict_get air_quality ''so2'' 0)];
                    (total_risk_score, health_risks) = risk_loop prof pollutant_values (0, []);
                    overall_risk = min (total_risk_score / 4) 10
                in Inr (Some \<lparr>overall_risk_score = overall_risk,
                              overall_risk_level = get_health_risk_level overall_risk,
                              pollutant_risks = health_risks,
                              recommendations =
                                generate_health_recommendations overall_risk age_group conditions,
                              hr_air_quality_data = air_quality\<rparr>))))"

section \<open>TravelEcoTourismModule\<close>

record route =
  start_city :: string
  end_city :: string
  start_aqi :: int
  end_aqi :: int
  route_score :: real
  route_status :: string
  start_location :: location_info
  end_location :: location_info

text \<open>\<^verbatim>\<open>data['current']['air_quality'].get('pm2_5', 0)\<close>: both subscripts can raise.\<close>

definition current_pm25 :: "payload \<Rightarrow> error + real" where
  "current_pm25 p =
     (case current p of
        None \<Rightarrow> Inl (KeyError ''current'')
      | Some cur \<Rightarrow>
          (case cur_air_quality cur of
             None \<Rightarrow> Inl (KeyError ''air_quality'')
           | Some aq \<Rightarrow> Inr (dict_get aq ''pm2_5'' 0)))"

definition optimize_low_pollution_route :: "analyzer \<Rightarrow> string \<Rightarrow> string \<Rightarrow> error + route option" where
  "optimize_low_pollution_route analyzer start_c end_c =
     (let start_data = analyzer start_c; end_data = analyzer end_c in
      case (start_data, end_data) of
        (Some sd, Some ed) \<Rightarrow>
          (if not_data start_data \<or> not_data end_data then Inr None
           else case current_pm25 sd of
             Inl e \<Rightarrow> Inl e
           | Inr spm \<Rightarrow>
               (case current_pm25 ed of
                  Inl e \<Rightarrow> Inl e
                | Inr epm \<Rightarrow>
                    (let s_aqi = TravelEcoTourismModule_calculate_aqi spm;
                         e_aqi = TravelEcoTourismModule_calculate_aqi epm;
                         score = (real_of_int s_aqi + real_of_int e_aqi) / 2;
                         status =
                           (if score < 50 then ''Low Pollution''
                            else if score < 100 then ''Moderate Pollution''
                            else ''High Pollution'')
                     in case location sd of
                          None \<Rightarrow> Inl (KeyError ''location'')
                        | Some sl \<Rightarrow>
                            (case location ed of
                               None \<Rightarrow> Inl (KeyError ''location'')
                             | Some el \<Rightarrow>
                                 Inr (Some \<lparr>start_city = start_c, end_city = end_c,
                                            start_aqi = s_aqi, end_aqi = e_aqi,
                                            route_score = score, route_status = status,
                                            start_location = sl, end_location = el\<rparr>)))))
      | _ \<Rightarrow> Inr None)"

section \<open>RealEstateUrbanPlanningModule\<close>

record site_suitability =
  ss_location :: string
  ss_aqi :: int
  ss_pm25 :: real
  suitability_score :: real
  suitability_level :: string
  ss_air_quality_data :: air_quality
  ss_location_data :: location_info

definition assess_site_suitability :: "analyzer \<Rightarrow> string \<Rightarrow> error + site_suitability option" where
  "assess_site_suitability analyzer loc =
     (let air_data = analyzer loc in
      case air_data of
        None \<Rightarrow> Inr None
      | Some p \<Rightarrow>
          (if not_data air_data then Inr None
           else case current p of
             None \<Rightarrow> Inr None
           | Some cur \<Rightarrow>
               (let air_quality = current_air_quality cur;
                    pm25 = dict_get air_quality ''pm2_5'' 0;
                    aqi = RealEstateUrbanPlanningModule_calculate_aqi pm25;
                    score = max 0 (100 - (real_of_int aqi / 3));
                    level =
                      (if score > 80 then ''High''
                       else if score > 50 then ''Moderate''
                       else ''Low'')
                in case location p of
                     None \<Rightarrow> Inl (KeyError ''location'')
                   | Some l \<Rightarrow>
                       Inr (Some \<lparr>ss_location = loc, ss_aqi = aqi, ss_pm25 = pm25,
                                  suitability_score = score, suitability_level = level,
                                  ss_air_quality_data = air_quality,
                                  ss_location_data = l\<rparr>))))"

section \<open>Specification-side definitions\<close>

text \<open>
  The forecast aggregator in the specification's words: the qualifying values of a
  pollutant on a day are those of the hours whose \<^verbatim>\<open>air_quality\<close> object has the
  pollutant with a non-zero value; the daily value is their arithmetic mean, and 0 when
  there is none.
\<close>

definition qualifying_values :: "string \<Rightarrow> hour list \<Rightarrow> real list" where
  "qualifying_values pollutant hs =
     List.map_filter
       (\<lambda>h. case hour_air_quality h of
               None \<Rightarrow> None
             | Some aq \<Rightarrow>
                 (case aq pollutant of
                    None \<Rightarrow> None
                  | Some v \<Rightarrow> if v \<noteq> 0 then Some v else None)) hs"

definition daily_mean_spec :: "string \<Rightarrow> hour list \<Rightarrow> real" where
  "daily_mean_spec pollutant hs =
     (let vs = qualifying_values pollutant hs
      in if length vs = 0 then 0 else sum_list vs / real (length vs))"

text \<open>The daily aggregate of one forecast day: its date and the six daily values.\<close>

definition daily_aggregate_spec :: "day \<Rightarrow> daily_avg" where
  "daily_aggregate_spec d =
     \<lparr>da_date = (case date d of None \<Rightarrow> [] | Some dt \<Rightarrow> dt),
      da_values = map (\<lambda>p. (p, daily_mean_spec p (day_hours d))) pollutants\<rparr>"

text \<open>A payload whose \<^verbatim>\<open>current\<close> section carries the given reading.\<close>

definition with_reading :: "payload \<Rightarrow> air_quality \<Rightarrow> payload" where
  "with_reading p aq = p\<lparr>current := Some \<lparr>cur_air_quality = Some aq\<rparr>\<rparr>"

text \<open>
  The per-pollutant contributions read off a result: \<^verbatim>\<open>impact_percent\<close> of an entry of
  \<^verbatim>\<open>pollutant_impacts\<close>, and \<^verbatim>\<open>risk_score\<close> of an entry of \<^verbatim>\<open>pollutant_risks\<close>.
\<close>

definition impact_of :: "error + crop_impact option \<Rightarrow> string \<Rightarrow> real option" where
  "impact_of res pollutant =
     (case res of
        Inr (Some r) \<Rightarrow> map_option impact_percent (map_of (pollutant_impacts r) pollutant)
      | _ \<Rightarrow> None)"

definition risk_of :: "error + health_risk option \<Rightarrow> string \<Rightarrow> real option" where
  "risk_of res pollutant =
     (case res of
        Inr (Some r) \<Rightarrow> map_option risk_score (map_of (pollutant_risks r) pollutant)
      | _ \<Rightarrow> None)"

text \<open>
  The pollutant names of the profiles, with the payload key and the reference denominator
  each is normalized by.
\<close>

definition reference_table :: "(string \<times> string \<times> real) list" where
  "reference_table =
     [(''pm25'', ''pm2_5'', 15), (''o3'', ''o3'', 100), (''no2'', ''no2'', 40),
      (''so2'', ''so2'', 20)]"

text \<open>A health assessment without its recommendation texts.\<close>

definition scores_only :: "error + health_risk option \<Rightarrow> error + health_risk option" where
  "scores_only res =
     (case res of
        Inr (Some r) \<Rightarrow> Inr (Some (r\<lparr>recommendations := []\<rparr>))
      | _ \<Rightarrow> res)"

text \<open>
  The per-pollutant contributions in the claims' words, for given coefficients of a
  crop profile and given weights of a health profile, and what it means for a result to
  be scored with them: the result exists, its per-pollutant contributions are these, and
  its total is their sum capped at 50 (agriculture), or a quarter of their sum capped at
  10 (healthcare).
\<close>

definition crop_impacts_spec :: "real \<Rightarrow> real \<Rightarrow> real \<Rightarrow> real \<Rightarrow> air_quality \<Rightarrow> (string \<times> real) list" where
  "crop_impacts_spec c_o3 c_so2 c_no2 c_pm25 aq =
     [(''o3'', c_o3 * min (dict_get aq ''o3'' 0 / 100) 3 * 100),
      (''so2'', c_so2 * min (dict_get aq ''so2'' 0 / 20) 3 * 100),
      (''no2'', c_no2 * min (dict_get aq ''no2'' 0 / 40) 3 * 100),
      (''pm25'', c_pm25 * min (dict_get aq ''pm2_5'' 0 / 15) 3 * 100)]"

definition risk_scores_spec :: "real \<Rightarrow> real \<Rightarrow> real \<Rightarrow> real \<Rightarrow> air_quality \<Rightarrow> (string \<times> real) list" where
  "risk_scores_spec w_pm25 w_o3 w_no2 w_so2 aq =
     [(''pm25'', min (dict_get aq ''pm2_5'' 0 / 15 * w_pm25 * 10) 10),
      (''o3'', min (dict_get aq ''o3'' 0 / 100 * w_o3 * 10) 10),
      (''no2'', min (dict_get aq ''no2'' 0 / 40 * w_no2 * 10) 10),
      (''so2'', min (dict_get aq ''so2'' 0 / 20 * w_so2 * 10) 10)]"

definition uses_crop_profile :: "error + crop_impact option \<Rightarrow> (string \<times> real) list \<Rightarrow> bool" where
  "uses_crop_profile res impacts =
     (case res of
        Inr (Some ci) \<Rightarrow>
          map (\<lambda>(k, e). (k, impact_percent e)) (pollutant_impacts ci) = impacts \<and>
          total_yield_loss ci = min (sum_list (map snd impacts)) 50
      | _ \<Rightarrow> False)"

definition uses_risk_profile :: "error + health_risk option \<Rightarrow> (string \<times> real) list \<Rightarrow> bool" where
  "uses_risk_profile res scores =
     (case res of
        Inr (Some hr) \<Rightarrow>
          map (\<lambda>(k, e). (k, risk_score e)) (pollutant_risks hr) = scores \<and>
          overall_risk_score hr = min (sum_list (map snd scores) / 4) 10
      | _ \<Rightarrow> False)"

section \<open>Example payloads\<close>

text \<open>
  The reading of the specification's worked example (PM2.5 = 10, O3 = 50, NO2 = 20,
  SO2 = 5) as a payload of the provider, and a payload that has a \<^verbatim>\<open>location\<close>
  section but no \<^verbatim>\<open>current\<close> section.
\<close>

definition example_reading :: air_quality where
  "example_reading = [''pm2_5'' \<mapsto> 10, ''o3'' \<mapsto> 50, ''no2'' \<mapsto> 20, ''so2'' \<mapsto> 5]"

definition example_location :: location_info where
  "example_location = \<lparr>name = ''Delhi'', region = ''Delhi'', lat = 28.6139, lon = 77.2090\<rparr>"

definition example_payload :: payload where
  "example_payload =
     \<lparr>location = Some example_location,
      current = Some \<lparr>cur_air_quality = Some example_reading\<rparr>,
      forecast = None, other_keys = []\<rparr>"

definition example_analyzer :: analyzer where
  "example_analyzer = (\<lambda>city. Some example_payload)"

definition no_current_payload :: payload where
  "no_current_payload =
     \<lparr>location = Some example_location, current = None, forecast = None, other_keys = []\<rparr>"

definition no_current_analyzer :: analyzer where
  "no_current_analyzer = (\<lambda>city. Some no_current_payload)"

text \<open>
  A forecast of two days: the first with two hourly objects (PM2.5 of 10 and 20, and one
  O3 value that is 0), the second with an empty hourly list.
\<close>

definition example_forecast :: payload where
  "example_forecast =
     \<lparr>location = Some example_location, current = None,
      forecast = Some \<lparr>forecastday = Some
        [\<lparr>date = Some ''2024-01-01'',
          hours = Some
            [\<lparr>temp_c = Some 30, humidity = Some 60, wind_kph = Some 5,
              hour_air_quality = Some [''pm2_5'' \<mapsto> 10, ''o3'' \<mapsto> 0]\<rparr>,
             \<lparr>temp_c = Some 28, humidity = Some 55, wind_kph = Some 12,
              hour_air_quality = Some [''pm2_5'' \<mapsto> 20]\<rparr>]\<rparr>,
         \<lparr>date = Some ''2024-01-02'', hours = Some []\<rparr>]\<rparr>,
      other_keys = []\<rparr>"

text \<open>
  A forecast day whose second hourly object has no \<^verbatim>\<open>air_quality\<close> key.
\<close>

definition incomplete_hours :: "hour list" where
  "incomplete_hours =
     [\<lparr>temp_c = Some 30, humidity = Some 60, wind_kph = Some 5,
       hour_air_quality = Some [''pm2_5'' \<mapsto> 10]\<rparr>,
      \<lparr>temp_c = Some 28, humidity = Some 55, wind_kph = Some 12,
       hour_air_quality = None\<rparr>]"

definition incomplete_forecast :: payload where
  "incomplete_forecast =
     \<lparr>location = Some example_location, current = None,
      forecast = Some \<lparr>forecastday = Some
        [\<lparr>date = Some ''2024-01-01'', hours = Some incomplete_hours\<rparr>]\<rparr>,
      other_keys = []\<rparr>"

section \<open>The AQI converter\<close>

text \<open>
  Claim C1 (the AQI converter is monotonically non-decreasing on non-negative inputs).
  The converter is not: at PM2.5 = 12 the first branch returns 50, and just above that
  breakpoint, at PM2.5 = 12.05, the second branch interpolates from its lower anchor
  (12.1, 50) and returns 49.
\<close>

theorem calculate_aqi_dips_after_breakpoint:
  "SmartCitiesModule_calculate_aqi 12 = 50 \<and> SmartCitiesModule_calculate_aqi 12.05 = 49"
  by (simp add: SmartCitiesModule_calculate_aqi_def py_int_def)

lemma aqi_top_branch:
  assumes "250.4 < pm25"
  shows "300 \<le> py_int (200 + ((300 - 200) / (250.4 - 150.5)) * (pm25 - 150.5))"
proof -
  have "300 \<le> 200 + ((300 - 200) / (250.4 - 150.5)) * (pm25 - 150.5)"
    using assms by simp
  then show ?thesis
    unfolding py_int_def by (simp add: le_floor_iff)
qed

text \<open>
  Claim C3 (boundary values of the AQI converter): the converter maps 0 to 0, 12 to 50,
  35.4 to 100, 55.4 to 150, 150.4 to 200 and 300 to 300, and every input above the top
  breakpoint 250.4 to exactly 300.
\<close>

theorem calculate_aqi_boundary_values:
  "SmartCitiesModule_calculate_aqi 0 = 0 \<and>
   SmartCitiesModule_calculate_aqi 12 = 50 \<and>
   SmartCitiesModule_calculate_aqi 35.4 = 100 \<and>
   SmartCitiesModule_calculate_aqi 55.4 = 150 \<and>
   SmartCitiesModule_calculate_aqi 150.4 = 200 \<and>
   SmartCitiesModule_calculate_aqi 300 = 300 \<and>
   (\<forall>pm25. 250.4 < pm25 \<longrightarrow> SmartCitiesModule_calculate_aqi pm25 = 300)"
proof -
  have top: "SmartCitiesModule_calculate_aqi pm25 = 300" if "250.4 < pm25" for pm25
    using that aqi_top_branch [OF that] by (simp add: SmartCitiesModule_calculate_aqi_def)
  have "SmartCitiesModule_calculate_aqi 0 = 0"
    by (simp add: SmartCitiesModule_calculate_aqi_def py_int_def)
  moreover have "SmartCitiesModule_calculate_aqi 12 = 50"
    by (simp add: SmartCitiesModule_calculate_aqi_def py_int_def)
  moreover have "SmartCitiesModule_calculate_aqi 35.4 = 100"
    by (simp add: SmartCitiesModule_calculate_aqi_def py_int_def)
  moreover have "SmartCitiesModule_calculate_aqi 55.4 = 150"
    by (simp add: SmartCitiesModule_calculate_aqi_def py_int_def)
  moreover have "SmartCitiesModule_calculate_aqi 150.4 = 200"
    by (simp add: SmartCitiesModule_calculate_aqi_def py_int_def)
  moreover have "SmartCitiesModule_calculate_aqi 300 = 300"
    by (rule top) simp
  ultimately show ?thesis using top by blast
qed

theorem calculate_aqi_boundary_values_witness:
  "(250.4::real) < 1000 \<and> SmartCitiesModule_calculate_aqi 1000 = 300"
  using calculate_aqi_boundary_values by simp

text \<open>
  Claim C10 (the three copies of the AQI converter are extensionally equal): the
  converters of \<^verbatim>\<open>SmartCitiesModule\<close>, \<^verbatim>\<open>TravelEcoTourismModule\<close> and
  \<^verbatim>\<open>RealEstateUrbanPlanningModule\<close> return the same value on every PM2.5 input.
\<close>

theorem calculate_aqi_copies_agree:
  "SmartCitiesModule_calculate_aqi pm25 = TravelEcoTourismModule_calculate_aqi pm25 \<and>
   TravelEcoTourismModule_calculate_aqi pm25 = RealEstateUrbanPlanningModule_calculate_aqi pm25"
  by (simp add: SmartCitiesModule_calculate_aqi_def TravelEcoTourismModule_calculate_aqi_def
      RealEstateUrbanPlanningModule_calculate_aqi_def)

text \<open>
  Claim C8 (the PM2.5 estimator): on an hourly object with temperature \<open>t\<close>, humidity
  \<open>h\<close> and wind speed \<open>w\<close>, \<^verbatim>\<open>predict_pm25\<close> returns
  \<open>35 + max(0, (t - 25) / 10) * 5 + (h - 50) / 50 * 10 + max(0, (10 - w) / 10) * 15\<close>
  clamped into the interval from 5 to 200.
\<close>

theorem predict_pm25_formula:
  "predict_pm25 \<lparr>temp_c = Some t, humidity = Some h, wind_kph = Some w, hour_air_quality = aq\<rparr> =
     Inr (max 5 (min (35 + max 0 ((t - 25) / 10) * 5 + (h - 50) / 50 * 10
                        + max 0 ((10 - w) / 10) * 15) 200))"
  by (simp add: predict_pm25_def)


section \<open>Closed forms of the scoring loops\<close>

lemma crop_loop_profile:
  "crop_loop aq [(''o3'', a), (''so2'', b), (''no2'', c), (''pm25'', d)] (0, []) =
     (a * min (dict_get aq ''o3'' 0 / 100) 3 * 100
        + b * min (dict_get aq ''so2'' 0 / 20) 3 * 100
        + c * min (dict_get aq ''no2'' 0 / 40) 3 * 100
        + d * min (dict_get aq ''pm2_5'' 0 / 15) 3 * 100,
      [(''o3'', \<lparr>pi_value = dict_get aq ''o3'' 0,
                 impact_percent = a * min (dict_get aq ''o3'' 0 / 100) 3 * 100,
                 pi_risk_level = get_risk_level (a * min (dict_get aq ''o3'' 0 / 100) 3 * 100)\<rparr>),
       (''so2'', \<lparr>pi_value = dict_get aq ''so2'' 0,
                 impact_percent = b * min (dict_get aq ''so2'' 0 / 20) 3 * 100,
                 pi_risk_level = get_risk_level (b * min (dict_get aq ''so2'' 0 / 20) 3 * 100)\<rparr>),
       (''no2'', \<lparr>pi_value = dict_get aq ''no2'' 0,
                 impact_percent = c * min (dict_get aq ''no2'' 0 / 40) 3 * 100,
                 pi_risk_level = get_risk_level (c * min (dict_get aq ''no2'' 0 / 40) 3 * 100)\<rparr>),
       (''pm25'', \<lparr>pi_value = dict_get aq ''pm2_5'' 0,
                 impact_percent = d * min (dict_get aq ''pm2_5'' 0 / 15) 3 * 100,
                 pi_risk_level = get_risk_level (d * min (dict_get aq ''pm2_5'' 0 / 15) 3 * 100)\<rparr>)])"
  by (simp add: crop_normalized_def Let_def)

lemma crop_profile_shape:
  "crop_profile k = [(''o3'', snd (crop_profile k ! 0)), (''so2'', snd (crop_profile k ! 1)),
                     (''no2'', snd (crop_profile k ! 2)), (''pm25'', snd (crop_profile k ! 3))]
     \<and> (\<forall>i < 4. 0 \<le> snd (crop_profile k ! i))"
  by (simp add: crop_profile_def crop_sensitivity_def less_Suc_eq numeral_nat)

lemma select_profile_shape:
  "select_profile ag conds =
     [(''pm25'', snd (select_profile ag conds ! 0)), (''o3'', snd (select_profile ag conds ! 1)),
      (''no2'', snd (select_profile ag conds ! 2)), (''so2'', snd (select_profile ag conds ! 3))]
     \<and> (\<forall>i < 4. 1 \<le> snd (select_profile ag conds ! i))"
  by (simp add: select_profile_def risk_profiles_def less_Suc_eq numeral_nat)

lemma risk_loop_profile:
  "risk_loop [(''pm25'', a), (''o3'', b), (''no2'', c), (''so2'', d)]
     [(''pm25'', v1), (''o3'', v2), (''no2'', v3), (''so2'', v4)] (0, []) =
     (min (v1 / 15 * a * 10) 10 + min (v2 / 100 * b * 10) 10
        + min (v3 / 40 * c * 10) 10 + min (v4 / 20 * d * 10) 10,
      [(''pm25'', \<lparr>pr_value = v1, risk_score = min (v1 / 15 * a * 10) 10,
                   pr_risk_level = get_health_risk_level (min (v1 / 15 * a * 10) 10)\<rparr>),
       (''o3'', \<lparr>pr_value = v2, risk_score = min (v2 / 100 * b * 10) 10,
                   pr_risk_level = get_health_risk_level (min (v2 / 100 * b * 10) 10)\<rparr>),
       (''no2'', \<lparr>pr_value = v3, risk_score = min (v3 / 40 * c * 10) 10,
                   pr_risk_level = get_health_risk_level (min (v3 / 40 * c * 10) 10)\<rparr>),
       (''so2'', \<lparr>pr_value = v4, risk_score = min (v4 / 20 * d * 10) 10,
                   pr_risk_level = get_health_risk_level (min (v4 / 20 * d * 10) 10)\<rparr>)])"
  by (simp add: Let_def)



lemma not_data_current: "current p = Some cur \<Longrightarrow> \<not> not_data (Some p)"
  by (simp add: not_data_def)

lemma predict_crop_impact_result:
  assumes "analyzer loc = Some p" and "current p = Some cur" and "location p = Some l"
  shows "predict_crop_impact analyzer loc crop_type =
           Inr (Some \<lparr>total_yield_loss =
                        min (fst (crop_loop (current_air_quality cur)
                                    (crop_profile (lower crop_type)) (0, []))) 50,
                      pollutant_impacts =
                        snd (crop_loop (current_air_quality cur)
                               (crop_profile (lower crop_type)) (0, [])),
                      ci_air_quality_data = current_air_quality cur,
                      ci_location_data = l\<rparr>)"
  using assms not_data_current [OF assms(2)]
  by (simp add: predict_crop_impact_def Let_def split: prod.splits)

lemma predict_crop_impact_cases:
  assumes "predict_crop_impact analyzer loc crop_type = Inr (Some ci)"
  obtains p cur l where "analyzer loc = Some p" and "current p = Some cur"
    and "location p = Some l"
  using assms
  by (auto simp: predict_crop_impact_def Let_def split: option.splits if_splits prod.splits)

lemma min_ratio_nonneg: "0 \<le> v \<Longrightarrow> 0 \<le> c \<Longrightarrow> (0::real) < d \<Longrightarrow> 0 \<le> c * min (v / d) 3 * 100"
  by simp

lemma dict_get_nonneg:
  "(\<forall>k v. aq k = Some v \<longrightarrow> (0::real) \<le> v) \<Longrightarrow> 0 \<le> dict_get aq key 0"
  by (simp add: dict_get_def split: option.splits)

lemma crop_yield_nonneg:
  assumes "\<forall>k v. aq k = Some v \<longrightarrow> (0::real) \<le> v"
  shows "0 \<le> fst (crop_loop aq (crop_profile key) (0, []))"
proof -
  have sh: "crop_profile key =
      [(''o3'', snd (crop_profile key ! 0)), (''so2'', snd (crop_profile key ! 1)),
       (''no2'', snd (crop_profile key ! 2)), (''pm25'', snd (crop_profile key ! 3))]"
    and nn: "\<forall>i < 4. 0 \<le> snd (crop_profile key ! i)"
    using crop_profile_shape [of key] by blast+
  have c: "0 \<le> snd (crop_profile key ! 0)" "0 \<le> snd (crop_profile key ! 1)"
    "0 \<le> snd (crop_profile key ! 2)" "0 \<le> snd (crop_profile key ! 3)"
    using nn by simp_all
  have "fst (crop_loop aq (crop_profile key) (0, [])) =
      snd (crop_profile key ! 0) * min (dict_get aq ''o3'' 0 / 100) 3 * 100
      + snd (crop_profile key ! 1) * min (dict_get aq ''so2'' 0 / 20) 3 * 100
      + snd (crop_profile key ! 2) * min (dict_get aq ''no2'' 0 / 40) 3 * 100
      + snd (crop_profile key ! 3) * min (dict_get aq ''pm2_5'' 0 / 15) 3 * 100"
    by (subst sh) (simp only: crop_loop_profile fst_conv)
  moreover have "0 \<le> snd (crop_profile key ! 0) * min (dict_get aq ''o3'' 0 / 100) 3 * 100"
    by (rule min_ratio_nonneg [OF dict_get_nonneg [OF assms] c(1)]) simp
  moreover have "0 \<le> snd (crop_profile key ! 1) * min (dict_get aq ''so2'' 0 / 20) 3 * 100"
    by (rule min_ratio_nonneg [OF dict_get_nonneg [OF assms] c(2)]) simp
  moreover have "0 \<le> snd (crop_profile key ! 2) * min (dict_get aq ''no2'' 0 / 40) 3 * 100"
    by (rule min_ratio_nonneg [OF dict_get_nonneg [OF assms] c(3)]) simp
  moreover have "0 \<le> snd (crop_profile key ! 3) * min (dict_get aq ''pm2_5'' 0 / 15) 3 * 100"
    by (rule min_ratio_nonneg [OF dict_get_nonneg [OF assms] c(4)]) simp
  ultimately show ?thesis by linarith
qed

lemma assess_health_risk_result:
  assumes "analyzer loc = Some p" and "current p = Some cur"
  shows "assess_health_risk analyzer loc age_group conditions =
     (let aq = current_air_quality cur;
          st = risk_loop (select_profile age_group conditions)
                 [(''pm25'', dict_get aq ''pm2_5'' 0), (''o3'', dict_get aq ''o3'' 0),
                  (''no2'', dict_get aq ''no2'' 0), (''so2'', dict_get aq ''so2'' 0)] (0, [])
      in Inr (Some \<lparr>overall_risk_score = min (fst st / 4) 10,
                    overall_risk_level = get_health_risk_level (min (fst st / 4) 10),
                    pollutant_risks = snd st,
                    recommendations =
                      generate_health_recommendations (min (fst st / 4) 10) age_group conditions,
                    hr_air_quality_data = aq\<rparr>))"
  using assms not_data_current [OF assms(2)]
  by (simp add: assess_health_risk_def Let_def split: prod.splits)

lemma assess_health_risk_cases:
  assumes "assess_health_risk analyzer loc age_group conditions = Inr (Some hr)"
  obtains p cur where "analyzer loc = Some p" and "current p = Some cur"
  using assms
  by (auto simp: assess_health_risk_def Let_def split: option.splits if_splits prod.splits)

lemma capped_risk_nonneg:
  "0 \<le> v \<Longrightarrow> 1 \<le> w \<Longrightarrow> (0::real) < d \<Longrightarrow> 0 \<le> min (v / d * w * 10) 10"
  by simp

lemma risk_total_nonneg:
  assumes "\<forall>k v. aq k = Some v \<longrightarrow> (0::real) \<le> v"
  shows "0 \<le> fst (risk_loop (select_profile ag conds)
                 [(''pm25'', dict_get aq ''pm2_5'' 0), (''o3'', dict_get aq ''o3'' 0),
                  (''no2'', dict_get aq ''no2'' 0), (''so2'', dict_get aq ''so2'' 0)] (0, []))"
proof -
  let ?pr = "select_profile ag conds"
  have sh: "?pr = [(''pm25'', snd (?pr ! 0)), (''o3'', snd (?pr ! 1)),
                   (''no2'', snd (?pr ! 2)), (''so2'', snd (?pr ! 3))]"
    and ge: "\<forall>i < 4. 1 \<le> snd (?pr ! i)"
    using select_profile_shape [of ag conds] by blast+
  have w: "1 \<le> snd (?pr ! 0)" "1 \<le> snd (?pr ! 1)" "1 \<le> snd (?pr ! 2)" "1 \<le> snd (?pr ! 3)"
    using ge by simp_all
  have "fst (risk_loop ?pr
                 [(''pm25'', dict_get aq ''pm2_5'' 0), (''o3'', dict_get aq ''o3'' 0),
                  (''no2'', dict_get aq ''no2'' 0), (''so2'', dict_get aq ''so2'' 0)] (0, [])) =
      min (dict_get aq ''pm2_5'' 0 / 15 * snd (?pr ! 0) * 10) 10
      + min (dict_get aq ''o3'' 0 / 100 * snd (?pr ! 1) * 10) 10
      + min (dict_get aq ''no2'' 0 / 40 * snd (?pr ! 2) * 10) 10
      + min (dict_get aq ''so2'' 0 / 20 * snd (?pr ! 3) * 10) 10"
    by (subst sh) (simp only: risk_loop_profile fst_conv)
  moreover have "0 \<le> min (dict_get aq ''pm2_5'' 0 / 15 * snd (?pr ! 0) * 10) 10"
    by (rule capped_risk_nonneg [OF dict_get_nonneg [OF assms] w(1)]) simp
  moreover have "0 \<le> min (dict_get aq ''o3'' 0 / 100 * snd (?pr ! 1) * 10) 10"
    by (rule capped_risk_nonneg [OF dict_get_nonneg [OF assms] w(2)]) simp
  moreover have "0 \<le> min (dict_get aq ''no2'' 0 / 40 * snd (?pr ! 2) * 10) 10"
    by (rule capped_risk_nonneg [OF dict_get_nonneg [OF assms] w(3)]) simp
  moreover have "0 \<le> min (dict_get aq ''so2'' 0 / 20 * snd (?pr ! 3) * 10) 10"
    by (rule capped_risk_nonneg [OF dict_get_nonneg [OF assms] w(4)]) simp
  ultimately show ?thesis by linarith
qed

lemma assess_site_suitability_result:
  assumes "analyzer loc = Some p" and "current p = Some cur" and "location p = Some l"
  shows "assess_site_suitability analyzer loc =
     (let aq = current_air_quality cur;
          pm25 = dict_get aq ''pm2_5'' 0;
          aqi = RealEstateUrbanPlanningModule_calculate_aqi pm25;
          score = max 0 (100 - real_of_int aqi / 3)
      in Inr (Some \<lparr>ss_location = loc, ss_aqi = aqi, ss_pm25 = pm25,
                    suitability_score = score,
                    suitability_level =
                      (if score > 80 then ''High'' else if score > 50 then ''Moderate''
                       else ''Low''),
                    ss_air_quality_data = aq, ss_location_data = l\<rparr>))"
  using assms not_data_current [OF assms(2)]
  by (simp add: assess_site_suitability_def Let_def)

lemma assess_site_suitability_cases:
  assumes "assess_site_suitability analyzer loc = Inr (Some ss)"
  obtains p cur l where "analyzer loc = Some p" and "current p = Some cur"
    and "location p = Some l"
  using assms
  by (auto simp: assess_site_suitability_def Let_def split: option.splits if_splits)

lemma py_int_nonneg: "0 \<le> x \<Longrightarrow> 0 \<le> py_int x"
  by (simp add: py_int_def)

lemma calculate_aqi_nonneg:
  assumes "0 \<le> pm25"
  shows "0 \<le> RealEstateUrbanPlanningModule_calculate_aqi pm25"
proof -
  have b1: "0 \<le> (50 / 12) * pm25" using assms by simp
  have b2: "0 \<le> 50 + ((100 - 50) / (35.4 - 12.1)) * (pm25 - 12.1)" if "12 < pm25"
    using that by (simp add: field_simps)
  have b3: "0 \<le> 100 + ((150 - 100) / (55.4 - 35.5)) * (pm25 - 35.5)" if "35.4 < pm25"
    using that by (simp add: field_simps)
  have b4: "0 \<le> 150 + ((200 - 150) / (150.4 - 55.5)) * (pm25 - 55.5)" if "55.4 < pm25"
    using that by (simp add: field_simps)
  have b5: "0 \<le> 200 + ((300 - 200) / (250.4 - 150.5)) * (pm25 - 150.5)" if "150.4 < pm25"
    using that by (simp add: field_simps)
  show ?thesis
    unfolding RealEstateUrbanPlanningModule_calculate_aqi_def
    using py_int_nonneg [OF b1] py_int_nonneg [OF b2] py_int_nonneg [OF b3]
      py_int_nonneg [OF b4] py_int_nonneg [OF b5]
    by (simp add: not_le)
qed

section \<open>Bounds of the domain scores\<close>

text \<open>
  Claim C4 (domain scores are bounded): for every reading without a negative
  concentration, a returned agriculture result has its \<^verbatim>\<open>total_yield_loss\<close> between
  0 and 50, a returned healthcare result has its \<^verbatim>\<open>overall_risk_score\<close> between 0
  and 10, and a returned real-estate result has its \<^verbatim>\<open>suitability_score\<close> between
  0 and 100. The reading is the one the result carries as \<^verbatim>\<open>air_quality_data\<close>.
\<close>

theorem domain_scores_bounded:
  "(predict_crop_impact analyzer loc crop_type = Inr (Some ci) \<longrightarrow>
      (\<forall>k v. ci_air_quality_data ci k = Some v \<longrightarrow> 0 \<le> v) \<longrightarrow>
      0 \<le> total_yield_loss ci \<and> total_yield_loss ci \<le> 50) \<and>
   (assess_health_risk analyzer loc age_group conditions = Inr (Some hr) \<longrightarrow>
      (\<forall>k v. hr_air_quality_data hr k = Some v \<longrightarrow> 0 \<le> v) \<longrightarrow>
      0 \<le> overall_risk_score hr \<and> overall_risk_score hr \<le> 10) \<and>
   (assess_site_suitability analyzer loc = Inr (Some ss) \<longrightarrow>
      (\<forall>k v. ss_air_quality_data ss k = Some v \<longrightarrow> 0 \<le> v) \<longrightarrow>
      0 \<le> suitability_score ss \<and> suitability_score ss \<le> 100)"
proof (intro conjI impI)
  assume r: "predict_crop_impact analyzer loc crop_type = Inr (Some ci)"
    and nn: "\<forall>k v. ci_air_quality_data ci k = Some v \<longrightarrow> 0 \<le> v"
  from r obtain p cur l where pc: "analyzer loc = Some p" "current p = Some cur"
    "location p = Some l"
    by (rule predict_crop_impact_cases)
  from predict_crop_impact_result [where analyzer = analyzer and loc = loc, OF pc] r
  have ci: "ci = \<lparr>total_yield_loss =
                        min (fst (crop_loop (current_air_quality cur)
                                    (crop_profile (lower crop_type)) (0, []))) 50,
                      pollutant_impacts =
                        snd (crop_loop (current_air_quality cur)
                               (crop_profile (lower crop_type)) (0, [])),
                      ci_air_quality_data = current_air_quality cur,
                      ci_location_data = l\<rparr>"
    by simp
  have "\<forall>k v. current_air_quality cur k = Some v \<longrightarrow> 0 \<le> v"
    using nn by (subst (asm) ci) simp
  from crop_yield_nonneg [OF this, of "lower crop_type"]
  show "0 \<le> total_yield_loss ci" by (subst ci) simp
  show "total_yield_loss ci \<le> 50" by (subst ci) simp
next
  assume r: "assess_health_risk analyzer loc age_group conditions = Inr (Some hr)"
    and nn: "\<forall>k v. hr_air_quality_data hr k = Some v \<longrightarrow> 0 \<le> v"
  from r obtain p cur where pc: "analyzer loc = Some p" "current p = Some cur"
    by (rule assess_health_risk_cases)
  let ?st = "risk_loop (select_profile age_group conditions)
                 [(''pm25'', dict_get (current_air_quality cur) ''pm2_5'' 0),
                  (''o3'', dict_get (current_air_quality cur) ''o3'' 0),
                  (''no2'', dict_get (current_air_quality cur) ''no2'' 0),
                  (''so2'', dict_get (current_air_quality cur) ''so2'' 0)] (0, [])"
  from assess_health_risk_result [where analyzer = analyzer and loc = loc, OF pc] r
  have sc: "overall_risk_score hr = min (fst ?st / 4) 10"
    and aq: "hr_air_quality_data hr = current_air_quality cur"
    by (auto simp: Let_def)
  have "\<forall>k v. current_air_quality cur k = Some v \<longrightarrow> 0 \<le> v"
    using nn by (simp add: aq)
  from risk_total_nonneg [OF this, of age_group conditions]
  show "0 \<le> overall_risk_score hr" by (simp add: sc)
  show "overall_risk_score hr \<le> 10" by (simp add: sc)
next
  assume r: "assess_site_suitability analyzer loc = Inr (Some ss)"
    and nn: "\<forall>k v. ss_air_quality_data ss k = Some v \<longrightarrow> 0 \<le> v"
  from r obtain p cur l where pc: "analyzer loc = Some p" "current p = Some cur"
    "location p = Some l"
    by (rule assess_site_suitability_cases)
  let ?pm = "dict_get (current_air_quality cur) ''pm2_5'' 0"
  from assess_site_suitability_result [where analyzer = analyzer and loc = loc, OF pc] r
  have sc: "suitability_score ss =
      max 0 (100 - real_of_int (RealEstateUrbanPlanningModule_calculate_aqi ?pm) / 3)"
    and aq: "ss_air_quality_data ss = current_air_quality cur"
    by (auto simp: Let_def)
  have "\<forall>k v. current_air_quality cur k = Some v \<longrightarrow> 0 \<le> v"
    using nn by (simp add: aq)
  then have "0 \<le> ?pm" by (rule dict_get_nonneg)
  then have "0 \<le> RealEstateUrbanPlanningModule_calculate_aqi ?pm"
    by (rule calculate_aqi_nonneg)
  then show "suitability_score ss \<le> 100" by (simp add: sc)
  show "0 \<le> suitability_score ss" by (simp add: sc)
qed

lemma example_payload_sections:
  "example_analyzer city = Some example_payload"
  "current example_payload = Some \<lparr>cur_air_quality = Some example_reading\<rparr>"
  "location example_payload = Some example_location"
  "current_air_quality \<lparr>cur_air_quality = Some example_reading\<rparr> = example_reading"
  by (simp_all add: example_analyzer_def example_payload_def current_air_quality_def)

lemma example_reading_non_negative: "\<forall>k v. example_reading k = Some v \<longrightarrow> 0 \<le> v"
  by (simp add: example_reading_def)

text \<open>The bounds on the specification's worked example (every function returns a result there).\<close>

theorem domain_scores_bounded_witness:
  "(\<exists>ci. predict_crop_impact example_analyzer ''Delhi'' ''wheat'' = Inr (Some ci) \<and>
         ci_air_quality_data ci = example_reading \<and>
         0 \<le> total_yield_loss ci \<and> total_yield_loss ci \<le> 50) \<and>
   (\<exists>hr. assess_health_risk example_analyzer ''Delhi'' ''adult'' None = Inr (Some hr) \<and>
         hr_air_quality_data hr = example_reading \<and>
         0 \<le> overall_risk_score hr \<and> overall_risk_score hr \<le> 10) \<and>
   (\<exists>ss. assess_site_suitability example_analyzer ''Delhi'' = Inr (Some ss) \<and>
         ss_air_quality_data ss = example_reading \<and>
         0 \<le> suitability_score ss \<and> suitability_score ss \<le> 100)"
proof (intro conjI)
  obtain ci where ci: "predict_crop_impact example_analyzer ''Delhi'' ''wheat'' = Inr (Some ci)"
    and aq: "ci_air_quality_data ci = example_reading"
    using predict_crop_impact_result [where analyzer = example_analyzer and loc = "''Delhi''"
        and crop_type = "''wheat''", OF example_payload_sections(1-3)]
    by (simp add: example_payload_sections(4))
  from domain_scores_bounded [where analyzer = example_analyzer and loc = "''Delhi''"
      and crop_type = "''wheat''" and ci = ci] ci aq
    example_reading_non_negative
  show "\<exists>ci. predict_crop_impact example_analyzer ''Delhi'' ''wheat'' = Inr (Some ci) \<and>
         ci_air_quality_data ci = example_reading \<and>
         0 \<le> total_yield_loss ci \<and> total_yield_loss ci \<le> 50"
    by simp
next
  obtain hr where hr: "assess_health_risk example_analyzer ''Delhi'' ''adult'' None = Inr (Some hr)"
    and aq: "hr_air_quality_data hr = example_reading"
    using assess_health_risk_result [where analyzer = example_analyzer and loc = "''Delhi''"
        and age_group = "''adult''" and conditions = None, OF example_payload_sections(1-2)]
    by (simp add: example_payload_sections(4) Let_def)
  from domain_scores_bounded [where analyzer = example_analyzer and loc = "''Delhi''"
      and age_group = "''adult''" and conditions = None and hr = hr] hr aq
    example_reading_non_negative
  show "\<exists>hr. assess_health_risk example_analyzer ''Delhi'' ''adult'' None = Inr (Some hr) \<and>
         hr_air_quality_data hr = example_reading \<and>
         0 \<le> overall_risk_score hr \<and> overall_risk_score hr \<le> 10"
    by simp
next
  obtain ss where ss: "assess_site_suitability example_analyzer ''Delhi'' = Inr (Some ss)"
    and aq: "ss_air_quality_data ss = example_reading"
    using assess_site_suitability_result [where analyzer = example_analyzer
        and loc = "''Delhi''", OF example_payload_sections(1-3)]
    by (simp add: example_payload_sections(4) Let_def)
  from domain_scores_bounded [where analyzer = example_analyzer and loc = "''Delhi''"
      and ss = ss] ss aq
    example_reading_non_negative
  show "\<exists>ss. assess_site_suitability example_analyzer ''Delhi'' = Inr (Some ss) \<and>
         ss_air_quality_data ss = example_reading \<and>
         0 \<le> suitability_score ss \<and> suitability_score ss \<le> 100"
    by simp
qed

section \<open>Missing sections, suitability and route scores\<close>

lemma guarded_scoring_no_result:
  assumes "analyzer loc = Some p" and "current p = None"
  shows "predict_crop_impact analyzer loc crop_type = Inr None"
    and "assess_health_risk analyzer loc age_group conditions = Inr None"
    and "assess_site_suitability analyzer loc = Inr None"
  using assms
  by (simp_all add: predict_crop_impact_def assess_health_risk_def assess_site_suitability_def)

lemma fetch_failed_no_result:
  assumes "analyzer loc = None"
  shows "predict_crop_impact analyzer loc crop_type = Inr None"
    and "assess_health_risk analyzer loc age_group conditions = Inr None"
    and "assess_site_suitability analyzer loc = Inr None"
    and "optimize_low_pollution_route analyzer loc other = Inr None"
    and "optimize_low_pollution_route analyzer other loc = Inr None"
  using assms
  by (simp_all add: predict_crop_impact_def assess_health_risk_def assess_site_suitability_def
      optimize_low_pollution_route_def Let_def split: option.splits)

text \<open>
  Claim C2 (a payload without its \<^verbatim>\<open>current\<close> section gives the no-result signal
  in every scoring operation). On a payload that has only a \<^verbatim>\<open>location\<close> section,
  \<^verbatim>\<open>predict_crop_impact\<close>, \<^verbatim>\<open>assess_health_risk\<close> and
  \<^verbatim>\<open>assess_site_suitability\<close> return \<^verbatim>\<open>None\<close>, but
  \<^verbatim>\<open>optimize_low_pollution_route\<close>, which tests the payloads for emptiness only,
  raises \<^verbatim>\<open>KeyError('current')\<close>.
\<close>

theorem route_raises_without_current:
  "optimize_low_pollution_route no_current_analyzer ''Delhi'' ''Pune'' = Inl (KeyError ''current'') \<and>
   predict_crop_impact no_current_analyzer ''Delhi'' ''wheat'' = Inr None \<and>
   assess_health_risk no_current_analyzer ''Delhi'' ''adult'' None = Inr None \<and>
   assess_site_suitability no_current_analyzer ''Delhi'' = Inr None"
  by (simp add: optimize_low_pollution_route_def predict_crop_impact_def assess_health_risk_def
      assess_site_suitability_def no_current_analyzer_def no_current_payload_def not_data_def
      current_pm25_def)

text \<open>
  Claim C9 (real-estate suitability and travel route score): on a payload with its
  \<^verbatim>\<open>current\<close> and \<^verbatim>\<open>location\<close> sections, \<^verbatim>\<open>assess_site_suitability\<close>
  returns a result whose score is \<open>max(0, 100 - AQI / 3)\<close> for the AQI of the reading's
  PM2.5, labelled High above 80, Moderate above 50 and Low otherwise; on two such payloads
  that carry an \<^verbatim>\<open>air_quality\<close> object, \<^verbatim>\<open>optimize_low_pollution_route\<close>
  returns a result whose score is the arithmetic mean of the two endpoint AQIs, with status
  Low Pollution below 50, Moderate Pollution below 100 and High Pollution otherwise.
\<close>

theorem suitability_and_route_scores:
  "(analyzer loc = Some p \<and> current p = Some cur \<and> location p = Some l \<longrightarrow>
      (\<exists>ss. assess_site_suitability analyzer loc = Inr (Some ss) \<and>
         ss_pm25 ss = dict_get (current_air_quality cur) ''pm2_5'' 0 \<and>
         ss_aqi ss = RealEstateUrbanPlanningModule_calculate_aqi (ss_pm25 ss) \<and>
         suitability_score ss = max 0 (100 - real_of_int (ss_aqi ss) / 3) \<and>
         suitability_level ss =
           (if suitability_score ss > 80 then ''High''
            else if suitability_score ss > 50 then ''Moderate'' else ''Low''))) \<and>
   (analyzer start_c = Some sd \<and> analyzer end_c = Some ed \<and>
    current sd = Some scur \<and> cur_air_quality scur = Some saq \<and> location sd = Some sl \<and>
    current ed = Some ecur \<and> cur_air_quality ecur = Some eaq \<and> location ed = Some el \<longrightarrow>
      (\<exists>r. optimize_low_pollution_route analyzer start_c end_c = Inr (Some r) \<and>
         start_aqi r = TravelEcoTourismModule_calculate_aqi (dict_get saq ''pm2_5'' 0) \<and>
         end_aqi r = TravelEcoTourismModule_calculate_aqi (dict_get eaq ''pm2_5'' 0) \<and>
         route_score r = (real_of_int (start_aqi r) + real_of_int (end_aqi r)) / 2 \<and>
         route_status r =
           (if route_score r < 50 then ''Low Pollution''
            else if route_score r < 100 then ''Moderate Pollution'' else ''High Pollution'')))"
proof (intro conjI impI)
  assume "analyzer loc = Some p \<and> current p = Some cur \<and> location p = Some l"
  then have "analyzer loc = Some p" "current p = Some cur" "location p = Some l"
    by simp_all
  from assess_site_suitability_result [where analyzer = analyzer and loc = loc, OF this]
  show "\<exists>ss. assess_site_suitability analyzer loc = Inr (Some ss) \<and>
         ss_pm25 ss = dict_get (current_air_quality cur) ''pm2_5'' 0 \<and>
         ss_aqi ss = RealEstateUrbanPlanningModule_calculate_aqi (ss_pm25 ss) \<and>
         suitability_score ss = max 0 (100 - real_of_int (ss_aqi ss) / 3) \<and>
         suitability_level ss =
           (if suitability_score ss > 80 then ''High''
            else if suitability_score ss > 50 then ''Moderate'' else ''Low'')"
    unfolding Let_def
    by (simp only: sum.inject option.inject simp_thms site_suitability.select_convs)
next
  assume "analyzer start_c = Some sd \<and> analyzer end_c = Some ed \<and>
    current sd = Some scur \<and> cur_air_quality scur = Some saq \<and> location sd = Some sl \<and>
    current ed = Some ecur \<and> cur_air_quality ecur = Some eaq \<and> location ed = Some el"
  then have "optimize_low_pollution_route analyzer start_c end_c =
      Inr (Some \<lparr>start_city = start_c, end_city = end_c,
        start_aqi = TravelEcoTourismModule_calculate_aqi (dict_get saq ''pm2_5'' 0),
        end_aqi = TravelEcoTourismModule_calculate_aqi (dict_get eaq ''pm2_5'' 0),
        route_score =
          (real_of_int (TravelEcoTourismModule_calculate_aqi (dict_get saq ''pm2_5'' 0))
           + real_of_int (TravelEcoTourismModule_calculate_aqi (dict_get eaq ''pm2_5'' 0))) / 2,
        route_status =
          (if (real_of_int (TravelEcoTourismModule_calculate_aqi (dict_get saq ''pm2_5'' 0))
               + real_of_int (TravelEcoTourismModule_calculate_aqi (dict_get eaq ''pm2_5'' 0))) / 2
              < 50 then ''Low Pollution''
           else if (real_of_int (TravelEcoTourismModule_calculate_aqi (dict_get saq ''pm2_5'' 0))
               + real_of_int (TravelEcoTourismModule_calculate_aqi (dict_get eaq ''pm2_5'' 0))) / 2
              < 100 then ''Moderate Pollution''
           else ''High Pollution''),
        start_location = sl, end_location = el\<rparr>)"
    by (simp add: optimize_low_pollution_route_def not_data_def current_pm25_def Let_def)
  then show "\<exists>r. optimize_low_pollution_route analyzer start_c end_c = Inr (Some r) \<and>
         start_aqi r = TravelEcoTourismModule_calculate_aqi (dict_get saq ''pm2_5'' 0) \<and>
         end_aqi r = TravelEcoTourismModule_calculate_aqi (dict_get eaq ''pm2_5'' 0) \<and>
         route_score r = (real_of_int (start_aqi r) + real_of_int (end_aqi r)) / 2 \<and>
         route_status r =
           (if route_score r < 50 then ''Low Pollution''
            else if route_score r < 100 then ''Moderate Pollution'' else ''High Pollution'')"
    by (simp only: sum.inject option.inject simp_thms route.select_convs)
qed

text \<open>Both scores on the worked example: PM2.5 = 10 has AQI 41.\<close>

theorem suitability_and_route_scores_witness:
  "(\<exists>ss. assess_site_suitability example_analyzer ''Delhi'' = Inr (Some ss) \<and>
         ss_pm25 ss = 10 \<and> ss_aqi ss = 41 \<and> suitability_score ss = 259 / 3 \<and>
         suitability_level ss = ''High'') \<and>
   (\<exists>r. optimize_low_pollution_route example_analyzer ''Delhi'' ''Pune'' = Inr (Some r) \<and>
         start_aqi r = 41 \<and> end_aqi r = 41 \<and> route_score r = 41 \<and>
         route_status r = ''Low Pollution'')"
proof -
  have a: "example_analyzer ''Delhi'' = Some example_payload"
    "example_analyzer ''Pune'' = Some example_payload"
    by (simp_all add: example_analyzer_def)
  have c: "current example_payload = Some \<lparr>cur_air_quality = Some example_reading\<rparr>"
    "cur_air_quality \<lparr>cur_air_quality = Some example_reading\<rparr> = Some example_reading"
    "location example_payload = Some example_location"
    by (simp_all add: example_payload_def)
  have v: "dict_get (current_air_quality \<lparr>cur_air_quality = Some example_reading\<rparr>) ''pm2_5'' 0 = 10"
    "dict_get example_reading ''pm2_5'' 0 = 10"
    by (simp_all add: current_air_quality_def dict_get_def example_reading_def)
  have q: "RealEstateUrbanPlanningModule_calculate_aqi 10 = 41"
    "TravelEcoTourismModule_calculate_aqi 10 = 41"
    by (simp_all add: RealEstateUrbanPlanningModule_calculate_aqi_def
        TravelEcoTourismModule_calculate_aqi_def py_int_def)
  note inst = suitability_and_route_scores [where analyzer = example_analyzer
      and loc = "''Delhi''" and p = example_payload
      and cur = "\<lparr>cur_air_quality = Some example_reading\<rparr>"
      and l = example_location and start_c = "''Delhi''" and end_c = "''Pune''"
      and sd = example_payload and ed = example_payload
      and scur = "\<lparr>cur_air_quality = Some example_reading\<rparr>"
      and ecur = "\<lparr>cur_air_quality = Some example_reading\<rparr>"
      and saq = example_reading and eaq = example_reading
      and sl = example_location and el = example_location]
  from inst a c obtain ss where ss:
    "assess_site_suitability example_analyzer ''Delhi'' = Inr (Some ss)"
    "ss_pm25 ss = dict_get (current_air_quality \<lparr>cur_air_quality = Some example_reading\<rparr>) ''pm2_5'' 0"
    "ss_aqi ss = RealEstateUrbanPlanningModule_calculate_aqi (ss_pm25 ss)"
    "suitability_score ss = max 0 (100 - real_of_int (ss_aqi ss) / 3)"
    "suitability_level ss =
       (if suitability_score ss > 80 then ''High''
        else if suitability_score ss > 50 then ''Moderate'' else ''Low'')"
    by blast
  from inst a c obtain r where r:
    "optimize_low_pollution_route example_analyzer ''Delhi'' ''Pune'' = Inr (Some r)"
    "start_aqi r = TravelEcoTourismModule_calculate_aqi (dict_get example_reading ''pm2_5'' 0)"
    "end_aqi r = TravelEcoTourismModule_calculate_aqi (dict_get example_reading ''pm2_5'' 0)"
    "route_score r = (real_of_int (start_aqi r) + real_of_int (end_aqi r)) / 2"
    "route_status r =
       (if route_score r < 50 then ''Low Pollution''
        else if route_score r < 100 then ''Moderate Pollution'' else ''High Pollution'')"
    by blast
  have s1: "ss_pm25 ss = 10" using ss(2) by (simp add: v)
  have s2: "ss_aqi ss = 41" using ss(3) by (simp add: s1 q)
  have s3: "suitability_score ss = 259 / 3" using ss(4) by (simp add: s2)
  have s4: "suitability_level ss = ''High''" using ss(5) by (simp add: s3)
  have r1: "start_aqi r = 41" "end_aqi r = 41" using r(2,3) by (simp_all add: v q)
  have r2: "route_score r = 41" using r(4) by (simp add: r1)
  have r3: "route_status r = ''Low Pollution''" using r(5) by (simp add: r2)
  from ss(1) s1 s2 s3 s4 r(1) r1 r2 r3 show ?thesis by blast
qed

section \<open>Clip idempotence\<close>

lemma reference_table_cases:
  assumes "(pollutant, key, d) \<in> set reference_table"
  obtains "pollutant = ''pm25''" "key = ''pm2_5''" "d = 15"
  | "pollutant = ''o3''" "key = ''o3''" "d = 100"
  | "pollutant = ''no2''" "key = ''no2''" "d = 40"
  | "pollutant = ''so2''" "key = ''so2''" "d = 20"
  using assms by (auto simp: reference_table_def)

lemma crop_contribution:
  assumes "(pollutant, key, d) \<in> set reference_table"
  shows "\<exists>c. \<forall>aq. map_option impact_percent
                    (map_of (snd (crop_loop aq (crop_profile k) (0, []))) pollutant)
                 = Some (c * min (dict_get aq key 0 / d) 3 * 100)"
proof -
  have sh: "crop_profile k =
      [(''o3'', snd (crop_profile k ! 0)), (''so2'', snd (crop_profile k ! 1)),
       (''no2'', snd (crop_profile k ! 2)), (''pm25'', snd (crop_profile k ! 3))]"
    using crop_profile_shape [of k] by blast
  from assms show ?thesis
  proof (cases rule: reference_table_cases)
    case 1
    then show ?thesis
      by (subst sh) (simp only: crop_loop_profile, simp)
  next
    case 2
    then show ?thesis
      by (subst sh) (simp only: crop_loop_profile, simp)
  next
    case 3
    then show ?thesis
      by (subst sh) (simp only: crop_loop_profile, simp)
  next
    case 4
    then show ?thesis
      by (subst sh) (simp only: crop_loop_profile, simp)
  qed
qed

lemma risk_contribution:
  assumes "(pollutant, key, d) \<in> set reference_table"
  shows "\<exists>w\<ge>1. \<forall>aq. map_option risk_score
             (map_of (snd (risk_loop (select_profile ag conds)
                [(''pm25'', dict_get aq ''pm2_5'' 0), (''o3'', dict_get aq ''o3'' 0),
                 (''no2'', dict_get aq ''no2'' 0), (''so2'', dict_get aq ''so2'' 0)] (0, [])))
                pollutant)
           = Some (min (dict_get aq key 0 / d * w * 10) 10)"
proof -
  let ?pr = "select_profile ag conds"
  have sh: "?pr = [(''pm25'', snd (?pr ! 0)), (''o3'', snd (?pr ! 1)),
                   (''no2'', snd (?pr ! 2)), (''so2'', snd (?pr ! 3))]"
    and ge: "\<forall>i < 4. 1 \<le> snd (?pr ! i)"
    using select_profile_shape [of ag conds] by blast+
  have w: "1 \<le> snd (?pr ! 0)" "1 \<le> snd (?pr ! 1)" "1 \<le> snd (?pr ! 2)" "1 \<le> snd (?pr ! 3)"
    using ge by simp_all
  from assms show ?thesis
  proof (cases rule: reference_table_cases)
    case 1
    have "\<forall>aq. map_option risk_score
             (map_of (snd (risk_loop ?pr
                [(''pm25'', dict_get aq ''pm2_5'' 0), (''o3'', dict_get aq ''o3'' 0),
                 (''no2'', dict_get aq ''no2'' 0), (''so2'', dict_get aq ''so2'' 0)] (0, [])))
                pollutant)
           = Some (min (dict_get aq key 0 / d * snd (?pr ! 0) * 10) 10)"
      using 1 by (subst sh) (simp only: risk_loop_profile, simp)
    with w(1) show ?thesis by blast
  next
    case 2
    have "\<forall>aq. map_option risk_score
             (map_of (snd (risk_loop ?pr
                [(''pm25'', dict_get aq ''pm2_5'' 0), (''o3'', dict_get aq ''o3'' 0),
                 (''no2'', dict_get aq ''no2'' 0), (''so2'', dict_get aq ''so2'' 0)] (0, [])))
                pollutant)
           = Some (min (dict_get aq key 0 / d * snd (?pr ! 1) * 10) 10)"
      using 2 by (subst sh) (simp only: risk_loop_profile, simp)
    with w(2) show ?thesis by blast
  next
    case 3
    have "\<forall>aq. map_option risk_score
             (map_of (snd (risk_loop ?pr
                [(''pm25'', dict_get aq ''pm2_5'' 0), (''o3'', dict_get aq ''o3'' 0),
                 (''no2'', dict_get aq ''no2'' 0), (''so2'', dict_get aq ''so2'' 0)] (0, [])))
                pollutant)
           = Some (min (dict_get aq key 0 / d * snd (?pr ! 2) * 10) 10)"
      using 3 by (subst sh) (simp only: risk_loop_profile, simp)
    with w(3) show ?thesis by blast
  next
    case 4
    have "\<forall>aq. map_option risk_score
             (map_of (snd (risk_loop ?pr
                [(''pm25'', dict_get aq ''pm2_5'' 0), (''o3'', dict_get aq ''o3'' 0),
                 (''no2'', dict_get aq ''no2'' 0), (''so2'', dict_get aq ''so2'' 0)] (0, [])))
                pollutant)
           = Some (min (dict_get aq key 0 / d * snd (?pr ! 3) * 10) 10)"
      using 4 by (subst sh) (simp only: risk_loop_profile, simp)
    with w(4) show ?thesis by blast
  qed
qed

lemma with_reading_sections:
  "current (with_reading p aq) = Some \<lparr>cur_air_quality = Some aq\<rparr>"
  "location (with_reading p aq) = location p"
  "current_air_quality \<lparr>cur_air_quality = Some aq\<rparr> = aq"
  by (simp_all add: with_reading_def current_air_quality_def)

lemma impact_of_reading:
  "impact_of (predict_crop_impact (\<lambda>city. Some (with_reading p aq)) loc crop_type) pollutant =
     (if location p = None then None
      else map_option impact_percent
             (map_of (snd (crop_loop aq (crop_profile (lower crop_type)) (0, []))) pollutant))"
proof (cases "location p")
  case None
  then show ?thesis
    by (simp add: impact_of_def predict_crop_impact_def not_data_def with_reading_sections
        Let_def split: prod.splits)
next
  case (Some l)
  have "predict_crop_impact (\<lambda>city. Some (with_reading p aq)) loc crop_type =
      Inr (Some \<lparr>total_yield_loss =
                        min (fst (crop_loop aq (crop_profile (lower crop_type)) (0, []))) 50,
                      pollutant_impacts =
                        snd (crop_loop aq (crop_profile (lower crop_type)) (0, [])),
                      ci_air_quality_data = aq,
                      ci_location_data = l\<rparr>)"
    using predict_crop_impact_result [where analyzer = "\<lambda>city. Some (with_reading p aq)"
        and loc = loc and p = "with_reading p aq" and cur = "\<lparr>cur_air_quality = Some aq\<rparr>"
        and l = l and crop_type = crop_type] Some
    by (simp add: with_reading_sections)
  then show ?thesis using Some by (simp add: impact_of_def)
qed

lemma risk_of_reading:
  "risk_of (assess_health_risk (\<lambda>city. Some (with_reading p aq)) loc age_group conditions)
      pollutant =
     map_option risk_score
       (map_of (snd (risk_loop (select_profile age_group conditions)
          [(''pm25'', dict_get aq ''pm2_5'' 0), (''o3'', dict_get aq ''o3'' 0),
           (''no2'', dict_get aq ''no2'' 0), (''so2'', dict_get aq ''so2'' 0)] (0, [])))
          pollutant)"
  using assess_health_risk_result [where analyzer = "\<lambda>city. Some (with_reading p aq)"
      and loc = loc and p = "with_reading p aq" and cur = "\<lparr>cur_air_quality = Some aq\<rparr>"
      and age_group = age_group and conditions = conditions]
  by (simp add: with_reading_sections risk_of_def Let_def)

lemma clipped_ratio:
  assumes "(0::real) < d" and "3 < v / d"
  shows "min (v / d) 3 = 3" and "min (3 * d / d) 3 = (3::real)"
  using assms by simp_all

lemma capped_risk:
  assumes "(0::real) < d" and "3 \<le> x" and "1 \<le> w"
  shows "min (x * w * 10) 10 = (10::real)"
proof -
  have "3 * 1 \<le> x * w" using assms(2,3) by (intro mult_mono) simp_all
  then show ?thesis by simp
qed

text \<open>
  Claim C5 (clip idempotence): for a pollutant of the profiles whose concentration
  \<open>v\<close> drives its ratio \<open>v / d\<close> against the reference denominator \<open>d\<close> above 3.0,
  the per-pollutant contribution of \<^verbatim>\<open>predict_crop_impact\<close> (\<^verbatim>\<open>impact_percent\<close>) and
  of \<^verbatim>\<open>assess_health_risk\<close> (\<^verbatim>\<open>risk_score\<close>) equals the contribution computed on
  the same reading with that concentration set to ratio 3.0, that is to \<open>3 * d\<close>. The
  health contribution exists, and so does the agriculture one when the payload has a
  \<^verbatim>\<open>location\<close> section.
\<close>

theorem clip_idempotence:
  assumes "(pollutant, key, d) \<in> set reference_table" and "aq key = Some v" and "3 < v / d"
  shows "impact_of (predict_crop_impact (\<lambda>city. Some (with_reading p aq)) loc crop_type)
             pollutant =
           impact_of (predict_crop_impact (\<lambda>city. Some (with_reading p (aq(key \<mapsto> 3 * d))))
             loc crop_type) pollutant
       \<and> risk_of (assess_health_risk (\<lambda>city. Some (with_reading p aq)) loc age_group conditions)
             pollutant =
           risk_of (assess_health_risk (\<lambda>city. Some (with_reading p (aq(key \<mapsto> 3 * d))))
             loc age_group conditions) pollutant
       \<and> risk_of (assess_health_risk (\<lambda>city. Some (with_reading p aq)) loc age_group conditions)
             pollutant \<noteq> None
       \<and> (location p \<noteq> None \<longrightarrow>
           impact_of (predict_crop_impact (\<lambda>city. Some (with_reading p aq)) loc crop_type)
             pollutant \<noteq> None)"
proof -
  have d: "0 < d"
    using assms(1) by (cases rule: reference_table_cases) simp_all
  have g: "dict_get aq key 0 = v" "dict_get (aq(key \<mapsto> 3 * d)) key 0 = 3 * d"
    using assms(2) by (simp_all add: dict_get_def)
  obtain c where c: "\<And>aq. map_option impact_percent
        (map_of (snd (crop_loop aq (crop_profile (lower crop_type)) (0, []))) pollutant)
      = Some (c * min (dict_get aq key 0 / d) 3 * 100)"
    using crop_contribution [OF assms(1), of "lower crop_type"] by blast
  obtain w where w: "1 \<le> w" "\<And>aq. map_option risk_score
             (map_of (snd (risk_loop (select_profile age_group conditions)
                [(''pm25'', dict_get aq ''pm2_5'' 0), (''o3'', dict_get aq ''o3'' 0),
                 (''no2'', dict_get aq ''no2'' 0), (''so2'', dict_get aq ''so2'' 0)] (0, [])))
                pollutant)
           = Some (min (dict_get aq key 0 / d * w * 10) 10)"
    using risk_contribution [OF assms(1), of age_group conditions] by blast
  have t1: "impact_of (predict_crop_impact (\<lambda>city. Some (with_reading p aq)) loc crop_type)
             pollutant =
           impact_of (predict_crop_impact (\<lambda>city. Some (with_reading p (aq(key \<mapsto> 3 * d))))
             loc crop_type) pollutant"
    by (simp only: impact_of_reading c g clipped_ratio [OF d assms(3)])
  have r1: "min (v / d * w * 10) 10 = 10"
    using assms(3) by (intro capped_risk [OF d _ w(1)]) simp
  have r2: "min (3 * d / d * w * 10) 10 = 10"
    using d by (intro capped_risk [OF d _ w(1)]) simp
  have t2: "risk_of (assess_health_risk (\<lambda>city. Some (with_reading p aq)) loc age_group conditions)
             pollutant =
           risk_of (assess_health_risk (\<lambda>city. Some (with_reading p (aq(key \<mapsto> 3 * d))))
             loc age_group conditions) pollutant"
    by (simp only: risk_of_reading w(2) g r1 r2)
  have t3: "risk_of (assess_health_risk (\<lambda>city. Some (with_reading p aq)) loc age_group conditions)
             pollutant \<noteq> None"
    by (simp only: risk_of_reading w(2)) simp
  have t4: "location p \<noteq> None \<longrightarrow>
           impact_of (predict_crop_impact (\<lambda>city. Some (with_reading p aq)) loc crop_type)
             pollutant \<noteq> None"
    by (simp only: impact_of_reading c) simp
  from t1 t2 t3 t4 show ?thesis by blast
qed

lemma high_pm25_reading:
  "[''pm2_5'' \<mapsto> 60, ''o3'' \<mapsto> (50::real)] ''pm2_5'' = Some 60"
  by simp

text \<open>A reading with PM2.5 = 60, ratio 4 against the denominator 15, and the same at 45.\<close>

theorem clip_idempotence_witness:
  "(''pm25'', ''pm2_5'', 15) \<in> set reference_table \<and> (3::real) < 60 / 15 \<and>
   impact_of (predict_crop_impact
        (\<lambda>city. Some (with_reading example_payload [''pm2_5'' \<mapsto> 60, ''o3'' \<mapsto> 50]))
        ''Delhi'' ''wheat'') ''pm25'' =
     impact_of (predict_crop_impact
        (\<lambda>city. Some (with_reading example_payload
           ([''pm2_5'' \<mapsto> 60, ''o3'' \<mapsto> 50](''pm2_5'' \<mapsto> 3 * 15))))
        ''Delhi'' ''wheat'') ''pm25'' \<and>
   risk_of (assess_health_risk
        (\<lambda>city. Some (with_reading example_payload [''pm2_5'' \<mapsto> 60, ''o3'' \<mapsto> 50]))
        ''Delhi'' ''adult'' None) ''pm25'' =
     risk_of (assess_health_risk
        (\<lambda>city. Some (with_reading example_payload
           ([''pm2_5'' \<mapsto> 60, ''o3'' \<mapsto> 50](''pm2_5'' \<mapsto> 3 * 15))))
        ''Delhi'' ''adult'' None) ''pm25'' \<and>
   risk_of (assess_health_risk
        (\<lambda>city. Some (with_reading example_payload [''pm2_5'' \<mapsto> 60, ''o3'' \<mapsto> 50]))
        ''Delhi'' ''adult'' None) ''pm25'' \<noteq> None \<and>
   impact_of (predict_crop_impact
        (\<lambda>city. Some (with_reading example_payload [''pm2_5'' \<mapsto> 60, ''o3'' \<mapsto> 50]))
        ''Delhi'' ''wheat'') ''pm25'' \<noteq> None"
proof -
  have h1: "(''pm25'', ''pm2_5'', 15) \<in> set reference_table"
    by (simp add: reference_table_def)
  have h3: "(3::real) < 60 / 15" by simp
  have l: "location example_payload \<noteq> None" by (simp add: example_payload_def)
  from clip_idempotence [where pollutant = "''pm25''" and key = "''pm2_5''" and d = 15
      and aq = "[''pm2_5'' \<mapsto> 60, ''o3'' \<mapsto> 50]" and v = 60 and p = example_payload
      and loc = "''Delhi''" and crop_type = "''wheat''" and age_group = "''adult''"
      and conditions = None, OF h1 high_pm25_reading h3] h1 h3 l
  show ?thesis by blast
qed

section \<open>Profile lookup\<close>

lemma crop_profile_unknown:
  assumes "key \<notin> fst ` set crop_sensitivity"
  shows "crop_profile key = crop_profile ''wheat''"
proof -
  have "map_of crop_sensitivity key = None"
    using assms by (simp add: map_of_eq_None_iff)
  then show ?thesis
    by (simp add: crop_profile_def) (simp add: crop_sensitivity_def)
qed

lemma lower_wheat: "lower ''wheat'' = ''wheat''"
  by (simp add: lower_def char_lower_def)

lemma select_profile_unknown:
  assumes "age_group \<notin> fst ` set risk_profiles"
    and "\<not> has_condition conditions ''asthma''"
    and "\<not> has_condition conditions ''heart_disease''"
  shows "select_profile age_group conditions = select_profile ''adult'' conditions"
proof -
  have "map_of risk_profiles age_group = None"
    using assms(1) by (simp add: map_of_eq_None_iff)
  then show ?thesis
    using assms(2,3) by (simp add: select_profile_def) (simp add: risk_profiles_def)
qed

lemma recommendations_unknown:
  assumes "age_group \<notin> fst ` set risk_profiles"
  shows "generate_health_recommendations score age_group conditions =
         generate_health_recommendations score ''adult'' conditions"
proof -
  have "age_group \<noteq> ''child''" "age_group \<noteq> ''elderly''"
    using assms by (auto simp: risk_profiles_def)
  then show ?thesis by (simp add: generate_health_recommendations_def)
qed

lemma select_profile_asthma:
  assumes "has_condition conditions ''asthma''"
  shows "select_profile age_group conditions = select_profile ''asthma'' None"
  using assms by (simp add: select_profile_def has_condition_def risk_profiles_def)

lemma select_profile_heart_disease:
  assumes "\<not> has_condition conditions ''asthma''" and "has_condition conditions ''heart_disease''"
  shows "select_profile age_group conditions = select_profile ''heart_disease'' None"
  using assms by (simp add: select_profile_def has_condition_def risk_profiles_def)

lemma assess_health_risk_no_result:
  assumes "analyzer loc = None \<or> (\<exists>p. analyzer loc = Some p \<and> current p = None)"
  shows "assess_health_risk analyzer loc age_group conditions = Inr None"
  using assms by (auto simp: assess_health_risk_def)

lemma assess_health_risk_profile:
  assumes "select_profile age_group conditions = select_profile age_group' conditions'"
  shows "scores_only (assess_health_risk analyzer loc age_group conditions) =
         scores_only (assess_health_risk analyzer loc age_group' conditions')"
    and "(\<And>score. generate_health_recommendations score age_group conditions =
            generate_health_recommendations score age_group' conditions') \<Longrightarrow>
         conditions' = conditions \<Longrightarrow>
         assess_health_risk analyzer loc age_group conditions =
         assess_health_risk analyzer loc age_group' conditions'"
proof -
  consider "analyzer loc = None \<or> (\<exists>p. analyzer loc = Some p \<and> current p = None)"
    | p cur where "analyzer loc = Some p" "current p = Some cur"
    by (cases "analyzer loc") auto
  note split = this
  show "scores_only (assess_health_risk analyzer loc age_group conditions) =
         scores_only (assess_health_risk analyzer loc age_group' conditions')"
  proof (cases rule: split)
    case 1
    then show ?thesis by (simp only: assess_health_risk_no_result)
  next
    case 2
    note r = assess_health_risk_result [where analyzer = analyzer and loc = loc, OF 2]
    show ?thesis
      unfolding r Let_def assms by (simp add: scores_only_def)
  qed
  show "assess_health_risk analyzer loc age_group conditions =
         assess_health_risk analyzer loc age_group' conditions'"
    if "\<And>score. generate_health_recommendations score age_group conditions =
            generate_health_recommendations score age_group' conditions'"
      and "conditions' = conditions"
  proof (cases rule: split)
    case 1
    then show ?thesis by (simp only: assess_health_risk_no_result)
  next
    case 2
    note r = assess_health_risk_result [where analyzer = analyzer and loc = loc, OF 2]
    show ?thesis
      unfolding r Let_def assms that(1) by (rule refl)
  qed
qed

text \<open>
  The calls agree: an unknown crop type gives the result of a \<^verbatim>\<open>wheat\<close> request,
  an unknown age group without a flagged condition that of an \<^verbatim>\<open>adult\<close> request,
  and a flagged condition gives the scores of a request for that condition's profile.
\<close>

lemma profile_fallback_calls_agree:
  "(lower crop_type \<notin> fst ` set crop_sensitivity \<longrightarrow>
      predict_crop_impact analyzer loc crop_type = predict_crop_impact analyzer loc ''wheat'') \<and>
   (age_group \<notin> fst ` set risk_profiles \<and> \<not> has_condition conditions ''asthma'' \<and>
    \<not> has_condition conditions ''heart_disease'' \<longrightarrow>
      assess_health_risk analyzer loc age_group conditions =
      assess_health_risk analyzer loc ''adult'' conditions) \<and>
   (has_condition conditions ''asthma'' \<longrightarrow>
      scores_only (assess_health_risk analyzer loc age_group conditions) =
      scores_only (assess_health_risk analyzer loc ''asthma'' None)) \<and>
   (\<not> has_condition conditions ''asthma'' \<and> has_condition conditions ''heart_disease'' \<longrightarrow>
      scores_only (assess_health_risk analyzer loc age_group conditions) =
      scores_only (assess_health_risk analyzer loc ''heart_disease'' None))"
proof (intro conjI impI)
  assume "lower crop_type \<notin> fst ` set crop_sensitivity"
  then have "crop_profile (lower crop_type) = crop_profile (lower ''wheat'')"
    using crop_profile_unknown [of "lower crop_type"] by (simp add: lower_wheat)
  then show "predict_crop_impact analyzer loc crop_type = predict_crop_impact analyzer loc ''wheat''"
    by (simp only: predict_crop_impact_def)
next
  assume h: "age_group \<notin> fst ` set risk_profiles \<and> \<not> has_condition conditions ''asthma'' \<and>
    \<not> has_condition conditions ''heart_disease''"
  then have "select_profile age_group conditions = select_profile ''adult'' conditions"
    using select_profile_unknown [of age_group conditions] by blast
  moreover have "\<And>score. generate_health_recommendations score age_group conditions =
         generate_health_recommendations score ''adult'' conditions"
    using h recommendations_unknown [of age_group _ conditions] by blast
  ultimately show "assess_health_risk analyzer loc age_group conditions =
      assess_health_risk analyzer loc ''adult'' conditions"
    by (intro assess_health_risk_profile(2)) simp_all
next
  assume "has_condition conditions ''asthma''"
  then show "scores_only (assess_health_risk analyzer loc age_group conditions) =
      scores_only (assess_health_risk analyzer loc ''asthma'' None)"
    by (intro assess_health_risk_profile(1) select_profile_asthma)
next
  assume "\<not> has_condition conditions ''asthma'' \<and> has_condition conditions ''heart_disease''"
  then show "scores_only (assess_health_risk analyzer loc age_group conditions) =
      scores_only (assess_health_risk analyzer loc ''heart_disease'' None)"
    by (intro assess_health_risk_profile(1) select_profile_heart_disease) simp_all
qed

lemma durian_unknown: "lower ''durian'' \<notin> fst ` set crop_sensitivity"
  by (simp add: lower_def char_lower_def crop_sensitivity_def)

lemma teen_unknown: "''teen'' \<notin> fst ` set risk_profiles"
  by (simp add: risk_profiles_def)

lemma example_conditions:
  "\<not> has_condition (Some [''diabetes'']) ''asthma''"
  "\<not> has_condition (Some [''diabetes'']) ''heart_disease''"
  "has_condition (Some [''diabetes'', ''asthma'']) ''asthma''"
  "\<not> has_condition (Some [''heart_disease'']) ''asthma''"
  "has_condition (Some [''heart_disease'']) ''heart_disease''"
  by (simp_all add: has_condition_def)

lemma crop_profile_wheat:
  "crop_profile ''wheat'' = [(''o3'', 0.12), (''so2'', 0.08), (''no2'', 0.05), (''pm25'', 0.10)]"
  by (simp add: crop_profile_def crop_sensitivity_def)

lemma uses_crop_profile_result:
  assumes "analyzer loc = Some p" and "current p = Some cur" and "location p = Some l"
    and "crop_profile (lower crop_type) = [(''o3'', a), (''so2'', b), (''no2'', c), (''pm25'', d)]"
  shows "uses_crop_profile (predict_crop_impact analyzer loc crop_type)
           (crop_impacts_spec a b c d (current_air_quality cur))"
  unfolding predict_crop_impact_result [where analyzer = analyzer and loc = loc, OF assms(1-3)]
    assms(4) crop_loop_profile
  by (simp add: uses_crop_profile_def crop_impacts_spec_def add.assoc)

lemma uses_risk_profile_result:
  assumes "analyzer loc = Some p" and "current p = Some cur"
    and "select_profile age_group conditions =
           [(''pm25'', a), (''o3'', b), (''no2'', c), (''so2'', d)]"
  shows "uses_risk_profile (assess_health_risk analyzer loc age_group conditions)
           (risk_scores_spec a b c d (current_air_quality cur))"
  unfolding assess_health_risk_result [where analyzer = analyzer and loc = loc, OF assms(1-2)]
    assms(3) Let_def risk_loop_profile
  by (simp add: uses_risk_profile_def risk_scores_spec_def add.assoc)

lemma select_profile_adult:
  assumes "age_group \<notin> fst ` set risk_profiles"
    and "\<not> has_condition conditions ''asthma''"
    and "\<not> has_condition conditions ''heart_disease''"
  shows "select_profile age_group conditions =
           [(''pm25'', 1.0), (''o3'', 1.0), (''no2'', 1.0), (''so2'', 1.0)]"
proof -
  have "map_of risk_profiles age_group = None"
    using assms(1) by (simp add: map_of_eq_None_iff)
  then show ?thesis
    using assms(2,3) by (simp add: select_profile_def) (simp add: risk_profiles_def)
qed

lemma select_profile_asthma_table:
  assumes "has_condition conditions ''asthma''"
  shows "select_profile age_group conditions =
           [(''pm25'', 2.2), (''o3'', 2.0), (''no2'', 1.8), (''so2'', 2.1)]"
  using assms by (simp add: select_profile_def risk_profiles_def)

lemma select_profile_heart_disease_table:
  assumes "\<not> has_condition conditions ''asthma''" and "has_condition conditions ''heart_disease''"
  shows "select_profile age_group conditions =
           [(''pm25'', 2.0), (''o3'', 1.7), (''no2'', 1.5), (''so2'', 1.8)]"
  using assms by (simp add: select_profile_def risk_profiles_def)

text \<open>
  Claim C6 (profile-lookup fallback). A crop type that is not a key of
  \<^verbatim>\<open>crop_sensitivity\<close> after lower-casing is scored with the wheat coefficients
  (O3 0.12, SO2 0.08, NO2 0.05, PM2.5 0.10) and gives exactly the result of a
  \<^verbatim>\<open>wheat\<close> request on the same reading. An age group that is not a key of
  \<^verbatim>\<open>risk_profiles\<close>, with neither asthma nor heart disease among the conditions, is
  scored with the adult weights (all 1.0) and gives exactly the result of an
  \<^verbatim>\<open>adult\<close> request. With asthma among the conditions the scores are those of the
  asthma weights (2.2, 2.0, 1.8, 2.1) whatever the age group, and otherwise with heart
  disease among the conditions those of the heart-disease weights (2.0, 1.7, 1.5, 1.8).
  The scores are those of a returned result, on a payload with the sections the function
  reads.
\<close>

theorem profile_lookup_fallback:
  "(lower crop_type \<notin> fst ` set crop_sensitivity \<longrightarrow>
      crop_profile (lower crop_type) =
        [(''o3'', 0.12), (''so2'', 0.08), (''no2'', 0.05), (''pm25'', 0.10)] \<and>
      predict_crop_impact analyzer loc crop_type = predict_crop_impact analyzer loc ''wheat'' \<and>
      (analyzer loc = Some p \<and> current p = Some cur \<and> location p = Some l \<longrightarrow>
         uses_crop_profile (predict_crop_impact analyzer loc crop_type)
           (crop_impacts_spec 0.12 0.08 0.05 0.10 (current_air_quality cur)))) \<and>
   (age_group \<notin> fst ` set risk_profiles \<and> \<not> has_condition conditions ''asthma'' \<and>
    \<not> has_condition conditions ''heart_disease'' \<longrightarrow>
      select_profile age_group conditions =
        [(''pm25'', 1.0), (''o3'', 1.0), (''no2'', 1.0), (''so2'', 1.0)] \<and>
      assess_health_risk analyzer loc age_group conditions =
        assess_health_risk analyzer loc ''adult'' conditions \<and>
      (analyzer loc = Some p \<and> current p = Some cur \<longrightarrow>
         uses_risk_profile (assess_health_risk analyzer loc age_group conditions)
           (risk_scores_spec 1.0 1.0 1.0 1.0 (current_air_quality cur)))) \<and>
   (has_condition conditions ''asthma'' \<longrightarrow>
      select_profile age_group conditions =
        [(''pm25'', 2.2), (''o3'', 2.0), (''no2'', 1.8), (''so2'', 2.1)] \<and>
      scores_only (assess_health_risk analyzer loc age_group conditions) =
        scores_only (assess_health_risk analyzer loc ''asthma'' None) \<and>
      (analyzer loc = Some p \<and> current p = Some cur \<longrightarrow>
         uses_risk_profile (assess_health_risk analyzer loc age_group conditions)
           (risk_scores_spec 2.2 2.0 1.8 2.1 (current_air_quality cur)))) \<and>
   (\<not> has_condition conditions ''asthma'' \<and> has_condition conditions ''heart_disease'' \<longrightarrow>
      select_profile age_group conditions =
        [(''pm25'', 2.0), (''o3'', 1.7), (''no2'', 1.5), (''so2'', 1.8)] \<and>
      scores_only (assess_health_risk analyzer loc age_group conditions) =
        scores_only (assess_health_risk analyzer loc ''heart_disease'' None) \<and>
      (analyzer loc = Some p \<and> current p = Some cur \<longrightarrow>
         uses_risk_profile (assess_health_risk analyzer loc age_group conditions)
           (risk_scores_spec 2.0 1.7 1.5 1.8 (current_air_quality cur))))"
proof (intro conjI impI)
  assume u: "lower crop_type \<notin> fst ` set crop_sensitivity"
  show w: "crop_profile (lower crop_type) =
        [(''o3'', 0.12), (''so2'', 0.08), (''no2'', 0.05), (''pm25'', 0.10)]"
    using crop_profile_unknown [OF u] by (simp only: crop_profile_wheat)
  show "predict_crop_impact analyzer loc crop_type = predict_crop_impact analyzer loc ''wheat''"
    using profile_fallback_calls_agree [of crop_type analyzer loc] u by blast
  assume "analyzer loc = Some p \<and> current p = Some cur \<and> location p = Some l"
  then have pl: "analyzer loc = Some p" "current p = Some cur" "location p = Some l"
    by simp_all
  show "uses_crop_profile (predict_crop_impact analyzer loc crop_type)
           (crop_impacts_spec 0.12 0.08 0.05 0.10 (current_air_quality cur))"
    by (rule uses_crop_profile_result [where analyzer = analyzer and loc = loc, OF pl w])
next
  assume u: "age_group \<notin> fst ` set risk_profiles \<and> \<not> has_condition conditions ''asthma'' \<and>
    \<not> has_condition conditions ''heart_disease''"
  show w: "select_profile age_group conditions =
        [(''pm25'', 1.0), (''o3'', 1.0), (''no2'', 1.0), (''so2'', 1.0)]"
    using u by (intro select_profile_adult) simp_all
  show "assess_health_risk analyzer loc age_group conditions =
        assess_health_risk analyzer loc ''adult'' conditions"
    using profile_fallback_calls_agree [of _ analyzer loc age_group conditions] u by blast
  assume "analyzer loc = Some p \<and> current p = Some cur"
  then have pl: "analyzer loc = Some p" "current p = Some cur"
    by simp_all
  show "uses_risk_profile (assess_health_risk analyzer loc age_group conditions)
           (risk_scores_spec 1.0 1.0 1.0 1.0 (current_air_quality cur))"
    by (rule uses_risk_profile_result [where analyzer = analyzer and loc = loc, OF pl w])
next
  assume u: "has_condition conditions ''asthma''"
  show w: "select_profile age_group conditions =
        [(''pm25'', 2.2), (''o3'', 2.0), (''no2'', 1.8), (''so2'', 2.1)]"
    using u by (rule select_profile_asthma_table)
  show "scores_only (assess_health_risk analyzer loc age_group conditions) =
        scores_only (assess_health_risk analyzer loc ''asthma'' None)"
    using profile_fallback_calls_agree [of _ analyzer loc age_group conditions] u by blast
  assume "analyzer loc = Some p \<and> current p = Some cur"
  then have pl: "analyzer loc = Some p" "current p = Some cur"
    by simp_all
  show "uses_risk_profile (assess_health_risk analyzer loc age_group conditions)
           (risk_scores_spec 2.2 2.0 1.8 2.1 (current_air_quality cur))"
    by (rule uses_risk_profile_result [where analyzer = analyzer and loc = loc, OF pl w])
next
  assume u: "\<not> has_condition conditions ''asthma'' \<and> has_condition conditions ''heart_disease''"
  show w: "select_profile age_group conditions =
        [(''pm25'', 2.0), (''o3'', 1.7), (''no2'', 1.5), (''so2'', 1.8)]"
    using u by (intro select_profile_heart_disease_table) simp_all
  show "scores_only (assess_health_risk analyzer loc age_group conditions) =
        scores_only (assess_health_risk analyzer loc ''heart_disease'' None)"
    using profile_fallback_calls_agree [of _ analyzer loc age_group conditions] u by blast
  assume "analyzer loc = Some p \<and> current p = Some cur"
  then have pl: "analyzer loc = Some p" "current p = Some cur"
    by simp_all
  show "uses_risk_profile (assess_health_risk analyzer loc age_group conditions)
           (risk_scores_spec 2.0 1.7 1.5 1.8 (current_air_quality cur))"
    by (rule uses_risk_profile_result [where analyzer = analyzer and loc = loc, OF pl w])
qed

text \<open>
  The fallbacks on the worked example: \<^verbatim>\<open>durian\<close> is scored with the wheat
  coefficients, an unknown age group with the adult weights, and the asthma and
  heart-disease weights replace those of a child and of an elderly person.
\<close>

theorem profile_lookup_fallback_witness:
  "predict_crop_impact example_analyzer ''Delhi'' ''durian'' =
     predict_crop_impact example_analyzer ''Delhi'' ''wheat'' \<and>
   uses_crop_profile (predict_crop_impact example_analyzer ''Delhi'' ''durian'')
     (crop_impacts_spec 0.12 0.08 0.05 0.10 example_reading) \<and>
   assess_health_risk example_analyzer ''Delhi'' ''teen'' (Some [''diabetes'']) =
     assess_health_risk example_analyzer ''Delhi'' ''adult'' (Some [''diabetes'']) \<and>
   uses_risk_profile (assess_health_risk example_analyzer ''Delhi'' ''teen'' (Some [''diabetes'']))
     (risk_scores_spec 1.0 1.0 1.0 1.0 example_reading) \<and>
   scores_only (assess_health_risk example_analyzer ''Delhi'' ''child''
       (Some [''diabetes'', ''asthma''])) =
     scores_only (assess_health_risk example_analyzer ''Delhi'' ''asthma'' None) \<and>
   uses_risk_profile (assess_health_risk example_analyzer ''Delhi'' ''child''
       (Some [''diabetes'', ''asthma'']))
     (risk_scores_spec 2.2 2.0 1.8 2.1 example_reading) \<and>
   scores_only (assess_health_risk example_analyzer ''Delhi'' ''elderly''
       (Some [''heart_disease''])) =
     scores_only (assess_health_risk example_analyzer ''Delhi'' ''heart_disease'' None) \<and>
   uses_risk_profile (assess_health_risk example_analyzer ''Delhi'' ''elderly''
       (Some [''heart_disease'']))
     (risk_scores_spec 2.0 1.7 1.5 1.8 example_reading)"
proof -
  note s = example_payload_sections(1) [of "''Delhi''"] example_payload_sections(2,3)
  note i1 = profile_lookup_fallback [where crop_type = "''durian''"
      and analyzer = example_analyzer and loc = "''Delhi''" and p = example_payload
      and cur = "\<lparr>cur_air_quality = Some example_reading\<rparr>" and l = example_location
      and age_group = "''teen''" and conditions = "Some [''diabetes'']",
      unfolded example_payload_sections(4)]
  note i2 = profile_lookup_fallback [where analyzer = example_analyzer and loc = "''Delhi''"
      and p = example_payload and cur = "\<lparr>cur_air_quality = Some example_reading\<rparr>"
      and age_group = "''child''" and conditions = "Some [''diabetes'', ''asthma'']",
      unfolded example_payload_sections(4)]
  note i3 = profile_lookup_fallback [where analyzer = example_analyzer and loc = "''Delhi''"
      and p = example_payload and cur = "\<lparr>cur_air_quality = Some example_reading\<rparr>"
      and age_group = "''elderly''" and conditions = "Some [''heart_disease'']",
      unfolded example_payload_sections(4)]
  from i1 s durian_unknown teen_unknown example_conditions(1,2)
  have a: "predict_crop_impact example_analyzer ''Delhi'' ''durian'' =
       predict_crop_impact example_analyzer ''Delhi'' ''wheat''"
    "uses_crop_profile (predict_crop_impact example_analyzer ''Delhi'' ''durian'')
       (crop_impacts_spec 0.12 0.08 0.05 0.10 example_reading)"
    "assess_health_risk example_analyzer ''Delhi'' ''teen'' (Some [''diabetes'']) =
       assess_health_risk example_analyzer ''Delhi'' ''adult'' (Some [''diabetes''])"
    "uses_risk_profile (assess_health_risk example_analyzer ''Delhi'' ''teen'' (Some [''diabetes'']))
       (risk_scores_spec 1.0 1.0 1.0 1.0 example_reading)"
    by blast+
  from i2 s example_conditions(3)
  have b: "scores_only (assess_health_risk example_analyzer ''Delhi'' ''child''
         (Some [''diabetes'', ''asthma''])) =
       scores_only (assess_health_risk example_analyzer ''Delhi'' ''asthma'' None)"
    "uses_risk_profile (assess_health_risk example_analyzer ''Delhi'' ''child''
         (Some [''diabetes'', ''asthma'']))
       (risk_scores_spec 2.2 2.0 1.8 2.1 example_reading)"
    by blast+
  from i3 s example_conditions(4,5)
  have c: "scores_only (assess_health_risk example_analyzer ''Delhi'' ''elderly''
         (Some [''heart_disease''])) =
       scores_only (assess_health_risk example_analyzer ''Delhi'' ''heart_disease'' None)"
    "uses_risk_profile (assess_health_risk example_analyzer ''Delhi'' ''elderly''
         (Some [''heart_disease'']))
       (risk_scores_spec 2.0 1.7 1.5 1.8 example_reading)"
    by blast+
  from a b c show ?thesis by blast
qed

section \<open>The forecast aggregator\<close>

lemma hour_values_qualifying:
  assumes "\<forall>h \<in> set hs. hour_air_quality h \<noteq> None"
  shows "hour_values pollutant hs = Inr (qualifying_values pollutant hs)"
  using assms
proof (induction hs)
  case Nil
  then show ?case by (simp add: qualifying_values_def List.map_filter_simps)
next
  case (Cons h hs)
  then obtain aq where aq: "hour_air_quality h = Some aq" by auto
  have rest: "hour_values pollutant hs = Inr (qualifying_values pollutant hs)"
    using Cons by simp
  show ?case
    by (cases "aq pollutant")
      (simp_all add: aq rest qualifying_values_def List.map_filter_simps dict_get_def)
qed

lemma mean_or_zero_spec:
  "mean_or_zero (qualifying_values pollutant hs) = daily_mean_spec pollutant hs"
  by (simp add: mean_or_zero_def daily_mean_spec_def Let_def)

lemma pollutant_loop_means:
  assumes "\<forall>h \<in> set hs. hour_air_quality h \<noteq> None"
  shows "pollutant_loop ps hs = Inr (map (\<lambda>p. (p, daily_mean_spec p hs)) ps)"
  by (induction ps) (simp_all add: hour_values_qualifying [OF assms] mean_or_zero_spec)

lemma day_loop_rows:
  assumes "\<forall>d \<in> set ds. date d \<noteq> None \<and> (\<forall>h \<in> set (day_hours d). hour_air_quality h \<noteq> None)"
  shows "day_loop ds = Inr (map daily_aggregate_spec ds)"
  using assms
proof (induction ds)
  case Nil
  then show ?case by simp
next
  case (Cons d ds)
  then obtain dt where dt: "date d = Some dt" by auto
  have hs: "\<forall>h \<in> set (day_hours d). hour_air_quality h \<noteq> None" using Cons.prems by simp
  have rest: "day_loop ds = Inr (map daily_aggregate_spec ds)" using Cons by simp
  show ?case
    by (simp add: dt rest pollutant_loop_means [OF hs] daily_aggregate_spec_def)
qed

lemma daily_aggregate_values:
  "map fst (da_values (daily_aggregate_spec d)) = pollutants"
  "pollutant \<in> set pollutants \<Longrightarrow>
     map_of (da_values (daily_aggregate_spec d)) pollutant =
       Some (daily_mean_spec pollutant (day_hours d))"
  by (simp_all add: daily_aggregate_spec_def comp_def map_of_map_restrict)

lemma daily_mean_spec_empty: "daily_mean_spec pollutant [] = 0"
  by (simp add: daily_mean_spec_def qualifying_values_def List.map_filter_simps)

text \<open>
  On a forecast payload whose first \<open>days\<close> days carry a date and whose hourly objects
  all carry an \<^verbatim>\<open>air_quality\<close> object, with \<open>days\<close> not negative,
  \<^verbatim>\<open>process_forecast_data\<close> returns one row per forecast day, capped at \<open>days\<close>
  rows, in the order of the input; the row of a day has the day's date and, for each of the
  six pollutants, the arithmetic mean over exactly the hours where the pollutant is present
  with a non-zero value, and 0 when there is no such hour.
\<close>

lemma daily_means_on_complete_hours:
  assumes "forecast p = Some f" and "forecastday f = Some ds" and "0 \<le> days"
    and "\<forall>d \<in> set (take (nat days) ds).
           date d \<noteq> None \<and> (\<forall>h \<in> set (day_hours d). hour_air_quality h \<noteq> None)"
  shows "\<exists>rows. process_forecast_data (Some p) days = Inr (Some rows) \<and>
           length rows = min (nat days) (length ds) \<and>
           (\<forall>i < length rows.
              date (ds ! i) = Some (da_date (rows ! i)) \<and>
              map fst (da_values (rows ! i)) = pollutants \<and>
              (\<forall>pollutant \<in> set pollutants.
                 map_of (da_values (rows ! i)) pollutant =
                   Some (daily_mean_spec pollutant (day_hours (ds ! i))) \<and>
                 (day_hours (ds ! i) = [] \<longrightarrow>
                    map_of (da_values (rows ! i)) pollutant = Some 0)))"
proof -
  let ?rows = "map daily_aggregate_spec (take (nat days) ds)"
  have nd: "\<not> not_data (Some p)"
    using assms(1) by (simp add: not_data_def)
  have sl: "py_slice_to ds days = take (nat days) ds"
    using assms(3) by (simp add: py_slice_to_def)
  have res: "process_forecast_data (Some p) days = Inr (Some ?rows)"
    using nd by (simp add: process_forecast_data_def assms(1,2) sl day_loop_rows [OF assms(4)])
  have len: "length ?rows = min (nat days) (length ds)"
    by simp
  have row: "date (ds ! i) = Some (da_date (?rows ! i)) \<and>
              map fst (da_values (?rows ! i)) = pollutants \<and>
              (\<forall>pollutant \<in> set pollutants.
                 map_of (da_values (?rows ! i)) pollutant =
                   Some (daily_mean_spec pollutant (day_hours (ds ! i))) \<and>
                 (day_hours (ds ! i) = [] \<longrightarrow>
                    map_of (da_values (?rows ! i)) pollutant = Some 0))"
    if "i < length ?rows" for i
  proof -
    have i: "i < nat days" "i < length ds" using that by simp_all
    have nth: "?rows ! i = daily_aggregate_spec (ds ! i)"
      using i by simp
    have "ds ! i \<in> set (take (nat days) ds)"
      using i by (metis length_take min_less_iff_conj nth_mem nth_take)
    then have "date (ds ! i) \<noteq> None" using assms(4) by blast
    then have dt: "date (ds ! i) = Some (da_date (daily_aggregate_spec (ds ! i)))"
      by (auto simp: daily_aggregate_spec_def)
    show ?thesis
      unfolding nth using dt
      by (auto simp: daily_aggregate_values daily_mean_spec_empty)
  qed
  from res len row show ?thesis by blast
qed

lemma example_forecast_sections:
  "forecast example_forecast = Some \<lparr>forecastday = Some
        [\<lparr>date = Some ''2024-01-01'',
          hours = Some
            [\<lparr>temp_c = Some 30, humidity = Some 60, wind_kph = Some 5,
              hour_air_quality = Some [''pm2_5'' \<mapsto> 10, ''o3'' \<mapsto> 0]\<rparr>,
             \<lparr>temp_c = Some 28, humidity = Some 55, wind_kph = Some 12,
              hour_air_quality = Some [''pm2_5'' \<mapsto> 20]\<rparr>]\<rparr>,
         \<lparr>date = Some ''2024-01-02'', hours = Some []\<rparr>]\<rparr>"
  by (simp add: example_forecast_def)

text \<open>
  The aggregator on the two-day forecast with \<open>days = 14\<close>: two rows; on the first day
  the PM2.5 mean is 15 and O3, present only as 0, gives 0; on the second, empty, day PM2.5
  is 0.
\<close>

lemma daily_means_on_complete_hours_example:
  "\<exists>rows. process_forecast_data (Some example_forecast) 14 = Inr (Some rows) \<and>
      length rows = 2 \<and>
      da_date (rows ! 0) = ''2024-01-01'' \<and> da_date (rows ! 1) = ''2024-01-02'' \<and>
      map_of (da_values (rows ! 0)) ''pm2_5'' = Some 15 \<and>
      map_of (da_values (rows ! 0)) ''o3'' = Some 0 \<and>
      map_of (da_values (rows ! 1)) ''pm2_5'' = Some 0"
proof -
  let ?h1 = "\<lparr>temp_c = Some 30, humidity = Some 60, wind_kph = Some 5,
              hour_air_quality = Some [''pm2_5'' \<mapsto> 10, ''o3'' \<mapsto> (0::real)]\<rparr>"
  let ?h2 = "\<lparr>temp_c = Some 28, humidity = Some 55, wind_kph = Some 12,
              hour_air_quality = Some [''pm2_5'' \<mapsto> (20::real)]\<rparr>"
  let ?d1 = "\<lparr>date = Some ''2024-01-01'', hours = Some [?h1, ?h2]\<rparr>"
  let ?d2 = "\<lparr>date = Some ''2024-01-02'', hours = Some []\<rparr>"
  have f2: "forecastday \<lparr>forecastday = Some [?d1, ?d2]\<rparr> = Some [?d1, ?d2]"
    by simp
  have days: "(0::int) \<le> 14" by simp
  have wf: "\<forall>d \<in> set (take (nat 14) [?d1, ?d2]).
           date d \<noteq> None \<and> (\<forall>h \<in> set (day_hours d). hour_air_quality h \<noteq> None)"
    by (simp add: day_hours_def)
  from daily_means_on_complete_hours [OF example_forecast_sections f2 days wf]
  obtain rows where res: "process_forecast_data (Some example_forecast) 14 = Inr (Some rows)"
    and len: "length rows = min (nat 14) (length [?d1, ?d2])"
    and row: "\<forall>i < length rows.
              date ([?d1, ?d2] ! i) = Some (da_date (rows ! i)) \<and>
              map fst (da_values (rows ! i)) = pollutants \<and>
              (\<forall>pollutant \<in> set pollutants.
                 map_of (da_values (rows ! i)) pollutant =
                   Some (daily_mean_spec pollutant (day_hours ([?d1, ?d2] ! i))) \<and>
                 (day_hours ([?d1, ?d2] ! i) = [] \<longrightarrow>
                    map_of (da_values (rows ! i)) pollutant = Some 0))"
    by blast
  have l2: "length rows = 2" using len by simp
  have p: "''pm2_5'' \<in> set pollutants" "''o3'' \<in> set pollutants"
    by (simp_all add: pollutants_def)
  have r0: "0 < length rows" and r1: "1 < length rows" using l2 by simp_all
  have m1: "daily_mean_spec ''pm2_5'' [?h1, ?h2] = 15"
    by (simp add: daily_mean_spec_def qualifying_values_def List.map_filter_simps)
  have m2: "daily_mean_spec ''o3'' [?h1, ?h2] = 0"
    by (simp add: daily_mean_spec_def qualifying_values_def List.map_filter_simps)
  have d0: "da_date (rows ! 0) = ''2024-01-01''"
    using row r0 by fastforce
  have d1: "da_date (rows ! 1) = ''2024-01-02''"
    using row r1 by fastforce
  have v1: "map_of (da_values (rows ! 0)) ''pm2_5'' = Some 15"
    using row r0 p(1) m1 by (fastforce simp: day_hours_def)
  have v2: "map_of (da_values (rows ! 0)) ''o3'' = Some 0"
    using row r0 p(2) m2 by (fastforce simp: day_hours_def)
  have v3: "map_of (da_values (rows ! 1)) ''pm2_5'' = Some 0"
    using row r1 p(1) by (fastforce simp: day_hours_def)
  from res l2 d0 d1 v1 v2 v3 show ?thesis by blast
qed

text \<open>
  Claim C7 (the forecast aggregator returns, for each pollutant of each day, the mean over
  the hours where the pollutant is present with a non-zero value, and 0 rather than an
  error when there is none). On a day with one hourly object that has PM2.5 = 10 and one
  that has no \<^verbatim>\<open>air_quality\<close> key, the claimed daily values are 10 for PM2.5 and 0 for
  O3, but \<^verbatim>\<open>process_forecast_data\<close> subscripts \<^verbatim>\<open>hour['air_quality']\<close> and
  raises \<^verbatim>\<open>KeyError('air_quality')\<close>.
\<close>

theorem process_forecast_data_raises_without_air_quality:
  "process_forecast_data (Some incomplete_forecast) 14 = Inl (KeyError ''air_quality'') \<and>
   daily_mean_spec ''pm2_5'' incomplete_hours = 10 \<and>
   daily_mean_spec ''o3'' incomplete_hours = 0"
proof -
  have "hour_values ''pm2_5'' incomplete_hours = Inl (KeyError ''air_quality'')"
    by (simp add: incomplete_hours_def)
  then have "day_loop [\<lparr>date = Some ''2024-01-01'', hours = Some incomplete_hours\<rparr>] =
      Inl (KeyError ''air_quality'')"
    by (simp add: pollutants_def day_hours_def)
  then have "process_forecast_data (Some incomplete_forecast) 14 = Inl (KeyError ''air_quality'')"
    by (simp add: process_forecast_data_def incomplete_forecast_def not_data_def py_slice_to_def)
  moreover have "daily_mean_spec ''pm2_5'' incomplete_hours = 10"
    by (simp add: daily_mean_spec_def qualifying_values_def incomplete_hours_def
        List.map_filter_simps)
  moreover have "daily_mean_spec ''o3'' incomplete_hours = 0"
    by (simp add: daily_mean_spec_def qualifying_values_def incomplete_hours_def
        List.map_filter_simps)
  ultimately show ?thesis by blast
qed

end
